theory Spec2Isabelle
  imports Complex_Main "HOL-Library.Log_Nat" "HOL-Library.Code_Target_Numeral"
begin

section \<open>The THORChain/Maya base plugin (basePlugin.ts)\<close>

text \<open>
  A shallow embedding of \<^verbatim>\<open>packages/plugins/thorchain/src/basePlugin.ts\<close>.
  Every operation of the plugin is asynchronous and awaits its collaborators one after
  the other, so an operation is a function from the history of collaborator calls made
  so far to a result (an error or a value) and the extended history. A rejected promise
  or a \<^verbatim>\<open>throw\<close> is the \<open>Inl\<close> branch of the result.
\<close>

subsection \<open>Data\<close>

text \<open>
  The \<^verbatim>\<open>Chain\<close> enum of the helpers package is not part of the sources at hand: the
  two protocol chains the plugin names are constructors, every other member is named by
  its key. \<^verbatim>\<open>pluginChain\<close> has the type \<^verbatim>\<open>Chain.Maya | Chain.THORChain\<close>.
\<close>

datatype Chain = THORChain | Maya | OtherChain string

datatype PluginChain = Plugin_THORChain | Plugin_Maya

fun chainOf :: "PluginChain \<Rightarrow> Chain" where
  "chainOf Plugin_THORChain = THORChain"
| "chainOf Plugin_Maya = Maya"

datatype ThornodeType = thorchain | mayachain

record ThornodeEndpointParams =
  ep_stagenet :: bool
  ep_type :: ThornodeType

datatype FeeOption = Average | Fast | Fastest

datatype ApproveMode = Approve | CheckOnly

datatype NodeActionType = BOND | UNBOND | LEAVE

datatype LiquidityMode = Mode_sym | Mode_baseAsset | Mode_asset

datatype SavingsType = Savings_add | Savings_withdraw

text \<open>
  A JavaScript \<^verbatim>\<open>number\<close> is an IEEE-754 double: not-a-number, an infinity, the
  negative zero, or a finite value \<open>Num r\<close> (\<open>Num 0\<close> is the positive zero), where \<open>r\<close>
  is the rational the double stands for. Arithmetic computes the exact result and
  rounds it to the nearest double, a tie to the even mantissa (\<open>roundDouble\<close>); a
  numeric literal of the source stands for the double nearest to it.
\<close>

datatype number = NaN | PosInfinity | NegInfinity | NegZero | Num rat

text \<open>\<open>\<lfloor>log\<^sub>2 a\<rfloor>\<close> for a positive rational, by the bit lengths of integers.\<close>

definition floorLog2 :: "rat \<Rightarrow> int" where
  "floorLog2 a = (if 1 \<le> a then bitlen \<lfloor>a\<rfloor> - 1 else - bitlen (\<lceil>1 / a\<rceil> - 1))"

definition roundHalfEven :: "rat \<Rightarrow> int" where
  "roundHalfEven q =
     (let f = \<lfloor>q\<rfloor>; d = q - of_int f
      in if d < 1 / 2 then f
         else if 1 / 2 < d then f + 1
         else if even f then f else f + 1)"

text \<open>
  Rounding to binary64: 53 bits of mantissa, exponents from \<open>-1022\<close> (below it the
  doubles are subnormal, with the spacing \<open>2\<^sup>-\<^sup>1\<^sup>0\<^sup>7\<^sup>4\<close>), overflow to an infinity from
  \<open>2\<^sup>1\<^sup>0\<^sup>2\<^sup>4\<close> on, and a result that rounds to zero keeps the sign.
\<close>

definition roundDouble :: "rat \<Rightarrow> number" where
  "roundDouble x =
     (if x = 0 then Num 0
      else let a = \<bar>x\<bar>;
               e = max (floorLog2 a) (- 1022);
               ulp = 2 powi (e - 52);
               n = roundHalfEven (a / ulp);
               r = of_int n * ulp
           in if 2 powi 1024 \<le> r then (if 0 < x then PosInfinity else NegInfinity)
              else if n = 0 then (if 0 < x then Num 0 else NegZero)
              else Num (if 0 < x then r else - r))"

fun isNegative :: "number \<Rightarrow> bool" where
  "isNegative NegInfinity = True"
| "isNegative NegZero = True"
| "isNegative (Num r) = (r < 0)"
| "isNegative _ = False"

fun isZero :: "number \<Rightarrow> bool" where
  "isZero NegZero = True"
| "isZero (Num r) = (r = 0)"
| "isZero _ = False"

fun isInfinite :: "number \<Rightarrow> bool" where
  "isInfinite PosInfinity = True"
| "isInfinite NegInfinity = True"
| "isInfinite _ = False"

fun finiteValue :: "number \<Rightarrow> rat" where
  "finiteValue (Num r) = r"
| "finiteValue _ = 0"

text \<open>The product \<^verbatim>\<open>a * b\<close> of two numbers.\<close>

definition num_times :: "number \<Rightarrow> number \<Rightarrow> number" where
  "num_times a b =
     (if a = NaN \<or> b = NaN then NaN
      else if (isInfinite a \<and> isZero b) \<or> (isZero a \<and> isInfinite b) then NaN
      else if isInfinite a \<or> isInfinite b
      then (if isNegative a = isNegative b then PosInfinity else NegInfinity)
      else if isZero a \<or> isZero b
      then (if isNegative a = isNegative b then Num 0 else NegZero)
      else roundDouble (finiteValue a * finiteValue b))"

text \<open>The comparisons \<^verbatim>\<open>a < b\<close> and \<^verbatim>\<open>a <= b\<close>: false on \<open>NaN\<close>, and the two zeros are equal.\<close>

fun num_less :: "number \<Rightarrow> number \<Rightarrow> bool" where
  "num_less NaN _ = False"
| "num_less _ NaN = False"
| "num_less PosInfinity _ = False"
| "num_less _ NegInfinity = False"
| "num_less _ PosInfinity = True"
| "num_less NegInfinity _ = True"
| "num_less a b = (finiteValue a < finiteValue b)"

definition num_le :: "number \<Rightarrow> number \<Rightarrow> bool" where
  "num_le a b = (a \<noteq> NaN \<and> b \<noteq> NaN \<and> \<not> num_less b a)"

text \<open>
  \<^verbatim>\<open>Math.round\<close>: the nearest integer, a half towards plus infinity; the result is the
  negative zero for the negative zero and for values from \<open>-0.5\<close> up to zero.
\<close>

fun Math_round :: "number \<Rightarrow> number" where
  "Math_round (Num a) =
     (if a < 0 \<and> - (1 / 2) \<le> a then NegZero else Num (of_int \<lfloor>a + 1 / 2\<rfloor>))"
| "Math_round x = x"

text \<open>
  \<^verbatim>\<open>Math.min\<close> of two numbers: \<open>NaN\<close> when one of them is, and the negative zero is
  smaller than the positive one.
\<close>

definition Math_min :: "number \<Rightarrow> number \<Rightarrow> number" where
  "Math_min a b =
     (if a = NaN \<or> b = NaN then NaN
      else if num_less a b then a
      else if num_less b a then b
      else if a = NegZero \<or> b = NegZero then NegZero
      else a)"

text \<open>
  An \<^verbatim>\<open>AssetValue\<close>, with the members the plugin reads. \<open>av_baseValue\<close> is the amount
  in base units (\<^verbatim>\<open>getBaseValue\<close>); \<^verbatim>\<open>gt(0)\<close> and \<^verbatim>\<open>lte(0)\<close> compare it with zero.
\<close>

record AssetValue =
  av_chain :: Chain
  av_symbol :: string
  av_ticker :: string
  av_address :: "string option"
  isGasAsset :: bool
  isSynthetic :: bool
  av_baseValue :: int

definition getBaseValue :: "AssetValue \<Rightarrow> int" where
  "getBaseValue v = av_baseValue v"

definition gt0 :: "AssetValue \<Rightarrow> bool" where
  "gt0 v = (0 < av_baseValue v)"

definition lte0 :: "AssetValue \<Rightarrow> bool" where
  "lte0 v = (av_baseValue v \<le> 0)"

text \<open>One entry of the inbound-address table of the node.\<close>

record InboundAddress =
  ib_chain :: Chain
  gas_rate :: "string option"
  ib_router :: "string option"
  ib_address :: string
  halted :: bool

record Mimir =
  HALTCHAINGLOBAL :: int
  HALTTHORCHAIN :: int

text \<open>The argument of the deposit primitive: \<^verbatim>\<open>CoreTxParams & { router?: string }\<close>.\<close>

record DepositParams =
  dp_assetValue :: AssetValue
  dp_recipient :: string
  dp_memo :: string
  dp_router :: "string option"
  dp_feeRate :: "number option"

record ApproveRequest =
  ar_amount :: int
  ar_assetAddress :: string
  ar_from :: string
  ar_spenderAddress :: "string option"

datatype ApproveResult = IsApproved bool | ApproveTx string

subsection \<open>Errors\<close>

datatype ErrorKey =
    core_inbound_data_not_found
  | core_chain_halted
  | core_wallet_connection_not_found
  | core_approve_asset_address_or_from_not_found
  | thorchain_chain_halted
  | core_transaction_create_liquidity_invalid_params
  | core_transaction_create_liquidity_base_error
  | core_transaction_create_liquidity_asset_error
  | core_transaction_add_liquidity_invalid_params
  | core_transaction_add_liquidity_base_address
  | core_transaction_add_liquidity_base_error
  | core_transaction_add_liquidity_asset_error

text \<open>
  A \<^verbatim>\<open>SwapKitError\<close> carries its key and, when it wraps one, the error that caused it.
  \<open>Rejected\<close> is any other error a collaborator rejects with.
\<close>

datatype error = SwapKitError ErrorKey "error option" | Rejected string

subsection \<open>Collaborator calls and their history\<close>

datatype event =
    GetInboundAddresses ThornodeEndpointParams
  | GetMimirInfo ThornodeEndpointParams
  | DepositCall DepositParams
  | WalletIsApproved Chain ApproveRequest
  | WalletApprove Chain ApproveRequest

type_synonym history = "event list"

type_synonym 'a io = "history \<Rightarrow> (error + 'a) \<times> history"

definition resolve :: "'a \<Rightarrow> 'a io" where
  "resolve x h = (Inr x, h)"

definition throw :: "error \<Rightarrow> 'a io" where
  "throw e h = (Inl e, h)"

text \<open>\<^verbatim>\<open>await m\<close>, then the rest of the function body with its value.\<close>

definition await :: "'a io \<Rightarrow> ('a \<Rightarrow> 'b io) \<Rightarrow> 'b io" where
  "await m f h = (case m h of (Inl e, h') \<Rightarrow> (Inl e, h') | (Inr x, h') \<Rightarrow> f x h')"

text \<open>
  A call of a collaborator: it is recorded in the history, and its answer may depend on
  everything that happened before it.
\<close>

definition call :: "event \<Rightarrow> (history \<Rightarrow> error + 'a) \<Rightarrow> 'a io" where
  "call ev answer h = (answer h, h @ [ev])"

text \<open>A wallet of \<^verbatim>\<open>ChainWallets\<close>: each capability may be missing.\<close>

record Wallet =
  w_address :: "string option"
  w_approve :: "(history \<Rightarrow> ApproveRequest \<Rightarrow> error + string) option"
  w_isApproved :: "(history \<Rightarrow> ApproveRequest \<Rightarrow> error + bool) option"

text \<open>
  The plugin's parameters (\<open>deposit\<close>, \<open>pluginChain\<close>, \<open>stagenet\<close>, \<open>wallets\<close>), the two
  endpoints of \<^verbatim>\<open>SwapKitApi\<close> it awaits, and the constants and pure helpers it imports
  from \<^verbatim>\<open>@swapkit/helpers\<close>, which are parameters here: the list \<^verbatim>\<open>EVMChains\<close>,
  \<^verbatim>\<open>getMinAmountByChain\<close>, \<^verbatim>\<open>AssetValue.from({ chain })\<close>, \<^verbatim>\<open>toString\<close> of an asset
  value and the memo builders. \<^verbatim>\<open>getAddress\<close> of \<^verbatim>\<open>./shared\<close> is a parameter as well: it
  reads the address of a chain's wallet from \<open>wallets\<close> and makes no call.
\<close>

record env =
  deposit :: "history \<Rightarrow> DepositParams \<Rightarrow> error + string"
  pluginChain :: PluginChain
  stagenet :: bool
  wallets :: "Chain \<Rightarrow> Wallet option"
  getInboundAddresses :: "ThornodeEndpointParams \<Rightarrow> history \<Rightarrow> error + InboundAddress list"
  getMimirInfo :: "ThornodeEndpointParams \<Rightarrow> history \<Rightarrow> error + Mimir"
  EVMChains :: "Chain list"
  getMinAmountByChain :: "Chain \<Rightarrow> AssetValue"
  AssetValue_from_chain :: "Chain \<Rightarrow> AssetValue"
  AssetValue_toString :: "AssetValue \<Rightarrow> string"
  getMemoForDeposit :: "Chain \<Rightarrow> string \<Rightarrow> string \<Rightarrow> string"
  getMemoForLeaveAndBond :: "NodeActionType \<Rightarrow> string \<Rightarrow> string"
  getMemoForUnbond :: "string \<Rightarrow> int \<Rightarrow> string"
  getMemoForSaverDeposit :: "string \<Rightarrow> Chain \<Rightarrow> string"
  getMemoForSaverWithdraw :: "number \<Rightarrow> string \<Rightarrow> Chain \<Rightarrow> string"
  getMemoForWithdraw :: "string \<Rightarrow> Chain \<Rightarrow> string \<Rightarrow> number \<Rightarrow> string option \<Rightarrow> string"
  getAddress :: "(Chain \<Rightarrow> Wallet option) \<Rightarrow> Chain \<Rightarrow> string"

subsection \<open>getInboundDataByChain\<close>

definition thornodeType :: "env \<Rightarrow> ThornodeType" where
  "thornodeType E = (if pluginChain E = Plugin_Maya then mayachain else thorchain)"

definition endpointParams :: "env \<Rightarrow> ThornodeEndpointParams" where
  "endpointParams E = \<lparr>ep_stagenet = stagenet E, ep_type = thornodeType E\<rparr>"

definition selfInboundData :: "Chain \<Rightarrow> InboundAddress" where
  "selfInboundData c =
     \<lparr>ib_chain = c, gas_rate = Some ''0'', ib_router = Some '''', ib_address = '''',
      halted = False\<rparr>"

definition getInboundDataByChain :: "env \<Rightarrow> Chain \<Rightarrow> InboundAddress io" where
  "getInboundDataByChain E c =
     (if (thornodeType E = thorchain \<and> c = THORChain) \<or> (thornodeType E = mayachain \<and> c = Maya)
      then resolve (selfInboundData c)
      else await (call (GetInboundAddresses (endpointParams E))
                       (getInboundAddresses E (endpointParams E)))
             (\<lambda>inboundData.
                case find (\<lambda>item. ib_chain item = c) inboundData of
                  None \<Rightarrow> throw (SwapKitError core_inbound_data_not_found None)
                | Some chainAddressData \<Rightarrow>
                    if halted chainAddressData
                    then throw (SwapKitError core_chain_halted None)
                    else resolve chainAddressData))"

subsection \<open>Number.parseInt\<close>

text \<open>
  A \<open>string\<close> is the UTF-8 encoding of a JavaScript string. \<^verbatim>\<open>Number.parseInt(string)\<close>
  with no radix, after ECMAScript: leading white space is dropped, then an optional
  sign, then the prefix \<^verbatim>\<open>0x\<close> or \<^verbatim>\<open>0X\<close> selects radix 16 (otherwise 10); the longest
  run of digits of the radix is the value, and there is no value (\<open>NaN\<close>) when that run
  is empty. The value is rounded to a double, and a zero after a minus sign is the
  negative zero. (For more than 20 significant decimal digits ECMAScript lets an
  implementation round the digits before the value; the value is exact here, as in V8.)

  White space is \<^verbatim>\<open>WhiteSpace\<close> and \<^verbatim>\<open>LineTerminator\<close> of ECMAScript: the ASCII characters
  9 to 13 and 32, and U+00A0, U+1680, U+2000 to U+200A, U+2028, U+2029, U+202F, U+205F,
  U+3000 and U+FEFF, which are two or three bytes in UTF-8.
\<close>

definition isWhiteSpace3 :: "nat \<Rightarrow> nat \<Rightarrow> nat \<Rightarrow> bool" where
  "isWhiteSpace3 a b c =
     ((a = 225 \<and> b = 154 \<and> c = 128)
      \<or> (a = 226 \<and> b = 128 \<and> ((128 \<le> c \<and> c \<le> 138) \<or> c = 168 \<or> c = 169 \<or> c = 175))
      \<or> (a = 226 \<and> b = 129 \<and> c = 159)
      \<or> (a = 227 \<and> b = 128 \<and> c = 128)
      \<or> (a = 239 \<and> b = 187 \<and> c = 191))"

text \<open>The number of bytes of the white-space character the bytes start with, or 0.\<close>

fun whiteSpaceBytes :: "nat list \<Rightarrow> nat" where
  "whiteSpaceBytes [] = 0"
| "whiteSpaceBytes (a # rest) =
     (if a \<in> set [9, 10, 11, 12, 13, 32] then 1
      else case rest of
             [] \<Rightarrow> 0
           | b # rest' \<Rightarrow>
               if a = 194 \<and> b = 160 then 2
               else (case rest' of [] \<Rightarrow> 0 | c # _ \<Rightarrow> if isWhiteSpace3 a b c then 3 else 0))"

function trimStart :: "string \<Rightarrow> string" where
  "trimStart s =
     (if whiteSpaceBytes (map of_char (take 3 s)) = 0 then s
      else trimStart (drop (whiteSpaceBytes (map of_char (take 3 s))) s))"
  by pat_completeness auto
termination
  by (relation "measure length") (auto intro: Nat.diff_less split: list.splits)

declare trimStart.simps [simp del]

definition digitValue :: "char \<Rightarrow> nat option" where
  "digitValue c =
     (let n = of_char c :: nat
      in if 48 \<le> n \<and> n \<le> 57 then Some (n - 48)
         else if 97 \<le> n \<and> n \<le> 122 then Some (n - 87)
         else if 65 \<le> n \<and> n \<le> 90 then Some (n - 55)
         else None)"

definition isRadixDigit :: "nat \<Rightarrow> char \<Rightarrow> bool" where
  "isRadixDigit R c = (case digitValue c of None \<Rightarrow> False | Some d \<Rightarrow> d < R)"

definition digitOf :: "char \<Rightarrow> nat" where
  "digitOf c = (case digitValue c of None \<Rightarrow> 0 | Some d \<Rightarrow> d)"

definition radixValue :: "nat \<Rightarrow> string \<Rightarrow> nat" where
  "radixValue R Z = foldl (\<lambda>acc c. acc * R + digitOf c) 0 Z"

definition parseInt :: "string \<Rightarrow> number" where
  "parseInt inputString =
     (let S = trimStart inputString;
          sign = (if S \<noteq> [] \<and> hd S = CHR ''-'' then - 1 else 1 :: int);
          S1 = (if S \<noteq> [] \<and> (hd S = CHR ''+'' \<or> hd S = CHR ''-'') then tl S else S);
          hex = (2 \<le> length S1 \<and> (take 2 S1 = ''0x'' \<or> take 2 S1 = ''0X''));
          R = (if hex then 16 else 10);
          S2 = (if hex then drop 2 S1 else S1);
          Z = takeWhile (isRadixDigit R) S2;
          mathInt = sign * int (radixValue R Z)
      in if Z = [] then NaN
         else if mathInt = 0 then (if sign = - 1 then NegZero else Num 0)
         else roundDouble (of_int mathInt))"

subsection \<open>approve\<close>

text \<open>A string that may be undefined is truthy when it is defined and not empty.\<close>

definition truthy :: "string option \<Rightarrow> bool" where
  "truthy s = (case s of None \<Rightarrow> False | Some x \<Rightarrow> x \<noteq> [])"

text \<open>
  \<^verbatim>\<open>type === "checkOnly" ? walletMethods?.isApproved : walletMethods?.approve\<close>: the
  capability, when the wallet has it, as a recorded call.
\<close>

definition walletAction ::
  "Chain \<Rightarrow> Wallet option \<Rightarrow> ApproveMode \<Rightarrow> (ApproveRequest \<Rightarrow> ApproveResult io) option" where
  "walletAction chain walletMethods mode =
     (case walletMethods of
        None \<Rightarrow> None
      | Some w \<Rightarrow>
          if mode = CheckOnly
          then map_option
                 (\<lambda>f req. call (WalletIsApproved chain req) (\<lambda>h. map_sum id IsApproved (f h req)))
                 (w_isApproved w)
          else map_option
                 (\<lambda>f req. call (WalletApprove chain req) (\<lambda>h. map_sum id ApproveTx (f h req)))
                 (w_approve w))"

definition approve :: "env \<Rightarrow> AssetValue \<Rightarrow> ApproveMode \<Rightarrow> ApproveResult io" where
  "approve E assetValue mode =
     await (getInboundDataByChain E (av_chain assetValue))
       (\<lambda>inbound.
          let router = ib_router inbound;
              address = av_address assetValue;
              chain = av_chain assetValue;
              isEVMChain = (chain \<in> set (EVMChains E));
              isNativeEVM = (isEVMChain \<and> isGasAsset assetValue)
          in if isNativeEVM \<or> \<not> isEVMChain \<or> isSynthetic assetValue
             then resolve (if mode = CheckOnly then IsApproved True else ApproveTx ''approved'')
             else let walletMethods = wallets E chain
                  in case walletAction chain walletMethods mode of
                       None \<Rightarrow> throw (SwapKitError core_wallet_connection_not_found None)
                     | Some action \<Rightarrow>
                         let fromAddr = (case walletMethods of None \<Rightarrow> None | Some w \<Rightarrow> w_address w)
                         in if \<not> (truthy address \<and> truthy fromAddr)
                            then throw (SwapKitError core_approve_asset_address_or_from_not_found None)
                            else action
                                   \<lparr>ar_amount = getBaseValue assetValue,
                                    ar_assetAddress = (case address of None \<Rightarrow> [] | Some a \<Rightarrow> a),
                                    ar_from = (case fromAddr of None \<Rightarrow> [] | Some a \<Rightarrow> a),
                                    ar_spenderAddress = router\<rparr>)"

subsection \<open>depositToProtocol and depositToPool\<close>

definition depositToProtocol :: "env \<Rightarrow> string \<Rightarrow> AssetValue \<Rightarrow> string io" where
  "depositToProtocol E memo assetValue =
     await (call (GetMimirInfo (endpointParams E)) (getMimirInfo E (endpointParams E)))
       (\<lambda>mimir.
          if 1 \<le> HALTCHAINGLOBAL mimir \<or> 1 \<le> HALTTHORCHAIN mimir
          then throw (SwapKitError thorchain_chain_halted None)
          else let params = \<lparr>dp_assetValue = assetValue, dp_recipient = '''', dp_memo = memo,
                              dp_router = None, dp_feeRate = None\<rparr>
               in call (DepositCall params) (\<lambda>h. deposit E h params))"

fun gasFeeMultiplier :: "FeeOption \<Rightarrow> number" where
  "gasFeeMultiplier Average = roundDouble (12 / 10)"
| "gasFeeMultiplier Fast = roundDouble (15 / 10)"
| "gasFeeMultiplier Fastest = roundDouble 2"

text \<open>The argument \<open>depositToPool\<close> hands to the deposit primitive for an inbound record.\<close>

definition poolDepositParams ::
  "InboundAddress \<Rightarrow> AssetValue \<Rightarrow> string \<Rightarrow> FeeOption \<Rightarrow> DepositParams" where
  "poolDepositParams inbound assetValue memo feeOptionKey =
     \<lparr>dp_assetValue = assetValue,
      dp_recipient = ib_address inbound,
      dp_memo = memo,
      dp_router = ib_router inbound,
      dp_feeRate =
        Some (num_times
                (parseInt (case gas_rate inbound of None \<Rightarrow> ''0'' | Some g \<Rightarrow> g))
                (gasFeeMultiplier feeOptionKey))\<rparr>"

definition depositToPool ::
  "env \<Rightarrow> AssetValue \<Rightarrow> string \<Rightarrow> FeeOption option \<Rightarrow> string io" where
  "depositToPool E assetValue memo feeOptionKey =
     await (getInboundDataByChain E (av_chain assetValue))
       (\<lambda>inbound.
          let params = poolDepositParams inbound assetValue memo
                         (case feeOptionKey of None \<Rightarrow> Fast | Some k \<Rightarrow> k)
          in call (DepositCall params) (\<lambda>h. deposit E h params))"

subsection \<open>nodeAction\<close>

definition nodeAction :: "env \<Rightarrow> NodeActionType \<Rightarrow> AssetValue \<Rightarrow> string \<Rightarrow> string io" where
  "nodeAction E type assetValue address =
     (let memo = (if type = UNBOND
                  then getMemoForUnbond E address (getBaseValue assetValue)
                  else getMemoForLeaveAndBond E type address);
          assetToTransfer = (if type = BOND then assetValue
                             else getMinAmountByChain E (chainOf (pluginChain E)))
      in depositToProtocol E memo assetToTransfer)"

subsection \<open>createLiquidity and addLiquidity\<close>

text \<open>
  Modelled from the spec: \<^verbatim>\<open>wrapWithThrow\<close> of \<^verbatim>\<open>@swapkit/helpers\<close> is not among the
  sources. It calls the function it is given; when the function throws, the error is
  re-tagged with the given error key and keeps the underlying cause; what the function
  returns is returned as it is. The wrapper is an ordinary function and does not await:
  the functions the plugin passes (lines 170 to 182 and 233 to 248) return the promise of
  \<open>depositToPool\<close>, and it is the plugin that awaits what the wrapper returns. A call
  that may throw is a sum, \<open>Inl\<close> the error thrown.
\<close>

definition wrapWithThrow :: "(unit \<Rightarrow> error + 'a) \<Rightarrow> ErrorKey \<Rightarrow> error + 'a" where
  "wrapWithThrow fn errorKey =
     (case fn () of
        Inl cause \<Rightarrow> Inl (SwapKitError errorKey (Some cause))
      | Inr x \<Rightarrow> Inr x)"

text \<open>\<^verbatim>\<open>await\<close> of the result of a call: the error if the call threw, else the promise.\<close>

definition awaited :: "error + 'a io \<Rightarrow> 'a io" where
  "awaited r = (case r of Inl e \<Rightarrow> throw e | Inr promise \<Rightarrow> promise)"

definition createLiquidity :: "env \<Rightarrow> AssetValue \<Rightarrow> AssetValue \<Rightarrow> (string \<times> string) io" where
  "createLiquidity E baseAssetValue assetValue =
     (if lte0 baseAssetValue \<or> lte0 assetValue
      then throw (SwapKitError core_transaction_create_liquidity_invalid_params None)
      else let assetAddress = getAddress E (wallets E) (av_chain assetValue);
               baseAssetAddress = getAddress E (wallets E) (chainOf (pluginChain E))
           in await (awaited
                       (wrapWithThrow
                          (\<lambda>_. Inr (depositToPool E baseAssetValue
                                       (getMemoForDeposit E (av_chain assetValue)
                                          (av_symbol assetValue) assetAddress)
                                       None))
                          core_transaction_create_liquidity_base_error))
                (\<lambda>baseAssetTx.
                   await (awaited
                            (wrapWithThrow
                               (\<lambda>_. Inr (depositToPool E assetValue
                                            (getMemoForDeposit E (av_chain assetValue)
                                               (av_symbol assetValue) baseAssetAddress)
                                            None))
                               core_transaction_create_liquidity_asset_error))
                     (\<lambda>assetTx. resolve (baseAssetTx, assetTx))))"

text \<open>\<^verbatim>\<open>a || b\<close> on strings, the first of which may be undefined.\<close>

definition strOr :: "string option \<Rightarrow> string \<Rightarrow> string" where
  "strOr a b = (case a of None \<Rightarrow> b | Some s \<Rightarrow> if s \<noteq> [] then s else b)"

definition baseTransfer :: "AssetValue \<Rightarrow> LiquidityMode \<Rightarrow> bool" where
  "baseTransfer baseAssetValue mode =
     (gt0 baseAssetValue \<and> (mode = Mode_sym \<or> mode = Mode_baseAsset))"

definition assetTransfer :: "AssetValue \<Rightarrow> LiquidityMode \<Rightarrow> bool" where
  "assetTransfer assetValue mode = (gt0 assetValue \<and> (mode = Mode_sym \<or> mode = Mode_asset))"

definition addLiquidity ::
  "env \<Rightarrow> AssetValue \<Rightarrow> AssetValue \<Rightarrow> string option \<Rightarrow> string option \<Rightarrow> bool \<Rightarrow>
   LiquidityMode option \<Rightarrow> (string option \<times> string option) io" where
  "addLiquidity E baseAssetValue assetValue baseAssetAddr assetAddr isPendingSymmAsset modeArg =
     (let mode = (case modeArg of None \<Rightarrow> Mode_sym | Some m \<Rightarrow> m);
          chain = av_chain assetValue;
          symbol = av_symbol assetValue;
          isSym = (mode = Mode_sym);
          includeBaseAddress = (isPendingSymmAsset \<or> baseTransfer baseAssetValue mode);
          baseAssetWalletAddress = getAddress E (wallets E) (chainOf (pluginChain E));
          baseAddress = (if includeBaseAddress then strOr baseAssetAddr baseAssetWalletAddress
                         else []);
          assetAddress = (if isSym \<or> mode = Mode_asset
                          then strOr assetAddr (getAddress E (wallets E) chain) else [])
      in if \<not> (baseTransfer baseAssetValue mode \<or> assetTransfer assetValue mode)
         then throw (SwapKitError core_transaction_add_liquidity_invalid_params None)
         else if includeBaseAddress \<and> baseAddress = []
         then throw (SwapKitError core_transaction_add_liquidity_base_address None)
         else await (if baseTransfer baseAssetValue mode
                     then await (awaited
                                   (wrapWithThrow
                                      (\<lambda>_. Inr (depositToPool E baseAssetValue
                                                   (getMemoForDeposit E chain symbol assetAddress)
                                                   None))
                                      core_transaction_add_liquidity_base_error))
                            (\<lambda>tx. resolve (Some tx))
                     else resolve None)
                (\<lambda>baseAssetTx.
                   await (if assetTransfer assetValue mode
                          then await (awaited
                                        (wrapWithThrow
                                           (\<lambda>_. Inr (depositToPool E assetValue
                                                        (getMemoForDeposit E chain symbol
                                                           baseAddress)
                                                        None))
                                           core_transaction_add_liquidity_asset_error))
                                 (\<lambda>tx. resolve (Some tx))
                          else resolve None)
                     (\<lambda>assetTx. resolve (baseAssetTx, assetTx))))"

subsection \<open>savings and withdraw\<close>

definition basisPoints :: "number \<Rightarrow> number" where
  "basisPoints percent = Math_min (Num 10000) (Math_round (num_times percent (Num 100)))"

definition savings ::
  "env \<Rightarrow> AssetValue \<Rightarrow> string option \<Rightarrow> number \<Rightarrow> SavingsType \<Rightarrow> string io" where
  "savings E assetValue memo percent type =
     (let chain = av_chain assetValue;
          symbol = av_symbol assetValue;
          isDeposit = (type = Savings_add);
          memoString = (if isDeposit then getMemoForSaverDeposit E symbol chain
                        else getMemoForSaverWithdraw E (basisPoints percent) symbol chain)
      in depositToPool E (if isDeposit then assetValue else getMinAmountByChain E chain)
           (strOr memo memoString) None)"

definition withdrawTargetAsset ::
  "env \<Rightarrow> AssetValue \<Rightarrow> LiquidityMode \<Rightarrow> LiquidityMode \<Rightarrow> AssetValue option" where
  "withdrawTargetAsset E assetValue from to =
     (if to = Mode_baseAsset \<and> from \<noteq> Mode_baseAsset
      then Some (AssetValue_from_chain E (chainOf (pluginChain E)))
      else if (from = Mode_sym \<and> to = Mode_sym) \<or> from = Mode_baseAsset \<or> from = Mode_asset
      then None
      else Some assetValue)"

definition withdraw ::
  "env \<Rightarrow> string option \<Rightarrow> AssetValue \<Rightarrow> number \<Rightarrow> LiquidityMode \<Rightarrow> LiquidityMode \<Rightarrow> string io" where
  "withdraw E memo assetValue percent from to =
     (let targetAsset = withdrawTargetAsset E assetValue from to;
          v = getMinAmountByChain E
                (if from = Mode_asset then av_chain assetValue else chainOf (pluginChain E));
          memoString =
            strOr memo
              (getMemoForWithdraw E (av_symbol assetValue) (av_chain assetValue)
                 (av_ticker assetValue) (basisPoints percent)
                 (map_option (AssetValue_toString E) targetAsset))
      in depositToPool E v memoString None)"

subsection \<open>The deposit calls of a history\<close>

fun depositCalls :: "history \<Rightarrow> DepositParams list" where
  "depositCalls [] = []"
| "depositCalls (DepositCall p # h) = p # depositCalls h"
| "depositCalls (_ # h) = depositCalls h"

fun walletCalls :: "history \<Rightarrow> event list" where
  "walletCalls [] = []"
| "walletCalls (WalletIsApproved c r # h) = WalletIsApproved c r # walletCalls h"
| "walletCalls (WalletApprove c r # h) = WalletApprove c r # walletCalls h"
| "walletCalls (_ # h) = walletCalls h"

subsection \<open>The spec's reading of the fee rate\<close>

text \<open>
  The spec computes the fee rate as \<^verbatim>\<open>floor(gasRateString) * multiplier\<close>. The number a
  gas-rate string in plain decimal notation denotes, following these words: an optional
  sign, decimal digits, and optionally a point and more decimal digits. (A string in
  another notation, such as \<^verbatim>\<open>.5\<close> or \<^verbatim>\<open>1e3\<close>, has no value here.) The floor of that
  number is taken exactly and is then a double, a zero keeping the sign the string
  gives it; the multiplier is the double of 1.2, 1.5 or 2.
\<close>

definition isDecimalDigit :: "char \<Rightarrow> bool" where
  "isDecimalDigit c = (48 \<le> (of_char c :: nat) \<and> (of_char c :: nat) \<le> 57)"

definition decimalOf :: "string \<Rightarrow> string \<Rightarrow> rat" where
  "decimalOf ip fp = of_nat (radixValue 10 ip) + of_nat (radixValue 10 fp) / 10 ^ length fp"

definition hasMinus :: "string \<Rightarrow> bool" where
  "hasMinus s = (s \<noteq> [] \<and> hd s = CHR ''-'')"

definition decimalValue :: "string \<Rightarrow> rat option" where
  "decimalValue s =
     (let signed = (s \<noteq> [] \<and> (hd s = CHR ''-'' \<or> hd s = CHR ''+''));
          body = (if signed then tl s else s);
          ip = takeWhile isDecimalDigit body;
          rest = dropWhile isDecimalDigit body;
          fp = tl rest
      in if ip \<noteq> [] \<and> (rest = [] \<or> (hd rest = CHR ''.'' \<and> list_all isDecimalDigit fp))
         then Some ((if hasMinus s then - 1 else 1) * decimalOf ip fp)
         else None)"

definition spec_floor :: "string \<Rightarrow> number option" where
  "spec_floor gasRateString =
     map_option (\<lambda>v. if v = 0 \<and> hasMinus gasRateString then NegZero
                     else roundDouble (of_int \<lfloor>v\<rfloor>))
       (decimalValue gasRateString)"

definition spec_multiplier :: "FeeOption \<Rightarrow> number" where
  "spec_multiplier k =
     (case k of Average \<Rightarrow> roundDouble (12 / 10) | Fast \<Rightarrow> roundDouble (15 / 10)
              | Fastest \<Rightarrow> roundDouble 2)"

definition spec_feeRate :: "string \<Rightarrow> FeeOption \<Rightarrow> number option" where
  "spec_feeRate gasRateString k =
     map_option (\<lambda>f. num_times f (spec_multiplier k)) (spec_floor gasRateString)"

subsection \<open>An example environment\<close>

text \<open>
  A plugin for THORChain on mainnet with memo builders in the protocol's format, over a
  given deposit primitive and a given inbound-address table.
\<close>

fun chainKey :: "Chain \<Rightarrow> string" where
  "chainKey THORChain = ''THOR''"
| "chainKey Maya = ''MAYA''"
| "chainKey (OtherChain k) = k"

definition digitChar :: "nat \<Rightarrow> char" where
  "digitChar d = ''0123456789'' ! d"

function showNat :: "nat \<Rightarrow> string" where
  "showNat n = (if n < 10 then [digitChar n]
                else showNat (n div 10) @ [digitChar (n mod 10)])"
  by pat_completeness auto
termination
  by (relation "measure id") auto

declare showNat.simps [simp del]

definition showInt :: "int \<Rightarrow> string" where
  "showInt i = (if i < 0 then ''-'' @ showNat (nat (- i)) else showNat (nat i))"

fun showNumber :: "number \<Rightarrow> string" where
  "showNumber NaN = ''NaN''"
| "showNumber PosInfinity = ''Infinity''"
| "showNumber NegInfinity = ''-Infinity''"
| "showNumber NegZero = ''0''"
| "showNumber (Num r) =
     (case quotient_of r of (p, q) \<Rightarrow> if q = 1 then showInt p else showInt p @ ''/'' @ showInt q)"

definition gasAsset :: "Chain \<Rightarrow> int \<Rightarrow> AssetValue" where
  "gasAsset c n =
     \<lparr>av_chain = c, av_symbol = chainKey c, av_ticker = chainKey c, av_address = None,
      isGasAsset = True, isSynthetic = False, av_baseValue = n\<rparr>"

definition exampleWallets :: "Chain \<Rightarrow> Wallet option" where
  "exampleWallets c =
     (if c = THORChain
      then Some \<lparr>w_address = Some ''thor1base'', w_approve = None, w_isApproved = None\<rparr>
      else if c = OtherChain ''ETH''
      then Some \<lparr>w_address = Some ''0xwallet'', w_approve = None, w_isApproved = None\<rparr>
      else None)"

definition exampleEnv ::
  "(history \<Rightarrow> DepositParams \<Rightarrow> error + string) \<Rightarrow> InboundAddress list \<Rightarrow> env" where
  "exampleEnv dep table =
     \<lparr>deposit = dep,
      pluginChain = Plugin_THORChain,
      stagenet = False,
      wallets = exampleWallets,
      getInboundAddresses = (\<lambda>p h. Inr table),
      getMimirInfo = (\<lambda>p h. Inr \<lparr>HALTCHAINGLOBAL = 0, HALTTHORCHAIN = 0\<rparr>),
      EVMChains = [OtherChain ''ETH'', OtherChain ''AVAX'', OtherChain ''BSC''],
      getMinAmountByChain = (\<lambda>c. gasAsset c 1),
      AssetValue_from_chain = (\<lambda>c. gasAsset c 0),
      AssetValue_toString = (\<lambda>v. chainKey (av_chain v) @ ''.'' @ av_symbol v),
      getMemoForDeposit = (\<lambda>c s a. ''+:'' @ chainKey c @ ''.'' @ s @ '':'' @ a),
      getMemoForLeaveAndBond = (\<lambda>t a. (if t = BOND then ''BOND:'' else ''LEAVE:'') @ a),
      getMemoForUnbond = (\<lambda>a n. ''UNBOND:'' @ a @ '':'' @ showInt n),
      getMemoForSaverDeposit = (\<lambda>s c. ''+:'' @ chainKey c @ ''/'' @ s),
      getMemoForSaverWithdraw = (\<lambda>bp s c. ''-:'' @ chainKey c @ ''/'' @ s @ '':'' @ showNumber bp),
      getMemoForWithdraw =
        (\<lambda>s c t bp target.
           ''-:'' @ chainKey c @ ''.'' @ s @ '':'' @ showNumber bp @
           (case target of None \<Rightarrow> [] | Some a \<Rightarrow> '':'' @ a)),
      getAddress =
        (\<lambda>ws c. case ws c of None \<Rightarrow> []
                 | Some w \<Rightarrow> (case w_address w of None \<Rightarrow> [] | Some a \<Rightarrow> a))\<rparr>"

definition okDeposit :: "history \<Rightarrow> DepositParams \<Rightarrow> error + string" where
  "okDeposit h p = Inr ''txid''"

definition failingDeposit :: "history \<Rightarrow> DepositParams \<Rightarrow> error + string" where
  "failingDeposit h p = Inl (Rejected ''broadcast failed'')"

text \<open>A deposit primitive that accepts the first deposit of a history and rejects the rest.\<close>

definition firstOnlyDeposit :: "history \<Rightarrow> DepositParams \<Rightarrow> error + string" where
  "firstOnlyDeposit h p =
     (if depositCalls h = [] then Inr ''txid'' else Inl (Rejected ''broadcast failed''))"

definition inboundEntry :: "Chain \<Rightarrow> string \<Rightarrow> bool \<Rightarrow> InboundAddress" where
  "inboundEntry c gas isHalted =
     \<lparr>ib_chain = c, gas_rate = Some gas, ib_router = Some ''0xrouter'', ib_address = ''0xvault'',
      halted = isHalted\<rparr>"

section \<open>Properties\<close>

subsection \<open>Rounding to a double\<close>

lemma powi_mono: "e1 \<le> e2 \<Longrightarrow> (2::rat) powi e1 \<le> 2 powi e2"
  by (rule power_int_increasing) simp_all

lemma powi_pos: "0 < (2::rat) powi e"
  by (simp add: zero_less_power_int)

lemma floorLog2_bounds:
  assumes "0 < a"
  shows "2 powi (floorLog2 a) \<le> a \<and> a < 2 powi (floorLog2 a + 1)"
proof (cases "1 \<le> a")
  case True
  define n where "n = \<lfloor>a\<rfloor>"
  define b where "b = bitlen n"
  have n: "1 \<le> n" using True by (simp add: n_def le_floor_iff)
  then have bb: "2 ^ nat (b - 1) \<le> n" "n < 2 ^ nat b"
    using bitlen_bounds[of n] by (simp_all add: b_def)
  have b1: "1 \<le> b"
    using n bitlen_eq_zero_iff[of n] bitlen_nonneg[of n] by (simp add: b_def)
  have fl: "floorLog2 a = b - 1"
    using True by (simp add: floorLog2_def n_def b_def)
  have lo: "(2::rat) powi (b - 1) \<le> a"
  proof -
    have "(2::rat) powi (b - 1) = of_int (2 ^ nat (b - 1))"
      using b1 by (simp add: power_int_nonneg_exp)
    also have "\<dots> \<le> of_int n" using bb(1) by (simp only: of_int_le_iff)
    also have "\<dots> \<le> a" by (simp add: n_def)
    finally show ?thesis .
  qed
  have hi: "a < (2::rat) powi b"
  proof -
    have "a < of_int (n + 1)" using floor_correct[of a] by (simp add: n_def)
    also have "\<dots> \<le> of_int (2 ^ nat b)"
      using bb(2) by (simp only: of_int_le_iff)
    also have "\<dots> = (2::rat) powi b"
      using b1 by (simp add: power_int_nonneg_exp)
    finally show ?thesis .
  qed
  from lo hi show ?thesis by (simp add: fl)
next
  case False
  define y where "y = 1 / a"
  define m where "m = \<lceil>y\<rceil> - 1"
  define k where "k = bitlen m"
  have y1: "1 < y" using False assms by (simp add: y_def)
  have m1: "1 \<le> m" using y1 by (simp add: m_def less_ceiling_iff)
  have my: "of_int m < y" "y \<le> of_int (m + 1)"
    using ceiling_correct[of y] by (simp_all add: m_def)
  have bb: "2 ^ nat (k - 1) \<le> m" "m < 2 ^ nat k"
    using bitlen_bounds[of m] m1 by (simp_all add: k_def)
  have k1: "1 \<le> k"
    using m1 bitlen_eq_zero_iff[of m] bitlen_nonneg[of m] by (simp add: k_def)
  have fl: "floorLog2 a = - k"
    using False by (simp add: floorLog2_def y_def m_def k_def)
  have yk: "y \<le> 2 ^ nat k"
  proof -
    have "of_int (m + 1) \<le> (of_int (2 ^ nat k) :: rat)"
      using bb(2) by (simp only: of_int_le_iff)
    then have "of_int (m + 1) \<le> (2::rat) ^ nat k" by simp
    with my(2) show ?thesis by linarith
  qed
  have ky: "2 ^ nat (k - 1) < y"
  proof -
    have "(of_int (2 ^ nat (k - 1)) :: rat) \<le> of_int m"
      using bb(1) by (simp only: of_int_le_iff)
    then have "(2::rat) ^ nat (k - 1) \<le> of_int m" by simp
    with my(1) show ?thesis by linarith
  qed
  have lo: "(2::rat) powi (- k) \<le> a"
  proof -
    have "(2::rat) powi (- k) = 1 / 2 ^ nat k"
      using k1 by (simp add: power_int_minus_divide power_int_nonneg_exp)
    also have "\<dots> \<le> a"
      using yk assms by (simp add: y_def field_simps)
    finally show ?thesis .
  qed
  have hi: "a < (2::rat) powi (- k + 1)"
  proof -
    have "- k + 1 = - (k - 1)" by simp
    then have "(2::rat) powi (- k + 1) = 1 / 2 ^ nat (k - 1)"
      using k1 by (simp only: power_int_minus_divide) (simp add: power_int_nonneg_exp)
    moreover have "a < 1 / 2 ^ nat (k - 1)"
      using ky assms by (simp add: y_def field_simps)
    ultimately show ?thesis by simp
  qed
  from lo hi show ?thesis by (simp add: fl)
qed

lemma floorLog2_unique:
  assumes "2 powi e \<le> a" and "a < 2 powi (e + 1)"
  shows "floorLog2 a = e"
proof -
  have pos: "0 < a" by (rule less_le_trans[OF powi_pos assms(1)])
  note b = floorLog2_bounds[OF pos]
  have "\<not> floorLog2 a < e"
  proof
    assume "floorLog2 a < e"
    then have "(2::rat) powi (floorLog2 a + 1) \<le> 2 powi e" by (intro powi_mono) simp
    with b assms(1) show False by simp
  qed
  moreover have "\<not> e < floorLog2 a"
  proof
    assume "e < floorLog2 a"
    then have "(2::rat) powi (e + 1) \<le> 2 powi (floorLog2 a)" by (intro powi_mono) simp
    with b assms(2) show False by simp
  qed
  ultimately show ?thesis by simp
qed

lemma roundHalfEven_int: "roundHalfEven (of_int n) = n"
  by (simp add: roundHalfEven_def)

lemma roundHalfEven_down:
  "of_int f \<le> q \<Longrightarrow> q < of_int f + 1 / 2 \<Longrightarrow> roundHalfEven q = f"
proof -
  assume a: "of_int f \<le> q" "q < of_int f + 1 / 2"
  then have "\<lfloor>q\<rfloor> = f" by (simp add: floor_eq_iff)
  with a show ?thesis by (simp add: roundHalfEven_def)
qed

lemma roundHalfEven_up:
  "of_int f + 1 / 2 < q \<Longrightarrow> q < of_int f + 1 \<Longrightarrow> roundHalfEven q = f + 1"
proof -
  assume a: "of_int f + 1 / 2 < q" "q < of_int f + 1"
  then have "\<lfloor>q\<rfloor> = f" by (simp add: floor_eq_iff)
  with a show ?thesis by (simp add: roundHalfEven_def)
qed

lemma roundHalfEven_tie:
  "q = of_int f + 1 / 2 \<Longrightarrow> roundHalfEven q = (if even f then f else f + 1)"
proof -
  assume a: "q = of_int f + 1 / 2"
  then have "\<lfloor>q\<rfloor> = f" by (simp add: floor_eq_iff)
  with a show ?thesis by (simp add: roundHalfEven_def)
qed

lemma roundHalfEven_nonneg: "0 \<le> q \<Longrightarrow> 0 \<le> roundHalfEven q"
  by (auto simp: roundHalfEven_def Let_def)

lemma roundDouble_eval:
  assumes "2 powi e \<le> a" and "a < 2 powi (e + 1)" and "- 1022 \<le> e"
    and "n = roundHalfEven (a / 2 powi (e - 52))" and "n \<noteq> 0"
    and "of_int n * 2 powi (e - 52) < (2::rat) powi 1024"
  shows "roundDouble a = Num (of_int n * 2 powi (e - 52))"
    and "roundDouble (- a) = Num (- (of_int n * 2 powi (e - 52)))"
proof -
  have pos: "0 < a" by (rule less_le_trans[OF powi_pos assms(1)])
  have e: "max (floorLog2 a) (- 1022) = e"
    using floorLog2_unique[OF assms(1,2)] assms(3) by simp
  show "roundDouble a = Num (of_int n * 2 powi (e - 52))"
    using pos assms(4,5,6) by (simp add: roundDouble_def Let_def e)
  show "roundDouble (- a) = Num (- (of_int n * 2 powi (e - 52)))"
    using pos assms(4,5,6) by (simp add: roundDouble_def Let_def e)
qed

lemma roundDouble_exact:
  assumes "2 powi e \<le> a" and "a < 2 powi (e + 1)" and "- 1022 \<le> e" and "e < 1024"
    and "a / 2 powi (e - 52) = of_int n"
  shows "roundDouble a = Num a" and "roundDouble (- a) = Num (- a)"
proof -
  have pos: "0 < a" by (rule less_le_trans[OF powi_pos assms(1)])
  have an: "a = of_int n * 2 powi (e - 52)"
    using assms(5) by (simp add: field_simps)
  have n0: "n \<noteq> 0" using pos an by auto
  have "a < (2::rat) powi 1024"
  proof -
    have "(2::rat) powi (e + 1) \<le> 2 powi 1024" using assms(4) by (intro powi_mono) simp
    with assms(2) show ?thesis by simp
  qed
  then have lt: "of_int n * 2 powi (e - 52) < (2::rat) powi 1024" using an by simp
  have rn: "n = roundHalfEven (a / 2 powi (e - 52))"
    by (simp add: assms(5) roundHalfEven_int)
  from roundDouble_eval[OF assms(1,2,3) rn n0 lt] an
  show "roundDouble a = Num a" and "roundDouble (- a) = Num (- a)" by simp_all
qed

lemma roundDouble_15: "roundDouble 15 = Num 15"
  by (rule roundDouble_exact[of 3 15 _]) simp_all

subsection \<open>Auxiliary facts about parseInt\<close>

lemma isRadixDigit_10: "isRadixDigit 10 = isDecimalDigit"
  by (rule ext) (auto simp: isRadixDigit_def isDecimalDigit_def digitValue_def Let_def)

lemma radixValue_snoc: "radixValue R (xs @ [c]) = radixValue R xs * R + digitOf c"
  by (simp add: radixValue_def)

lemma digitOf_decimal: "isDecimalDigit c \<Longrightarrow> digitOf c \<le> 9"
  by (auto simp: isDecimalDigit_def digitOf_def digitValue_def Let_def)

lemma radixValue_bound: "list_all isDecimalDigit fp \<Longrightarrow> radixValue 10 fp < 10 ^ length fp"
proof (induction fp rule: rev_induct)
  case Nil
  then show ?case by (simp add: radixValue_def)
next
  case (snoc c fp)
  then have "radixValue 10 fp < 10 ^ length fp" and "digitOf c \<le> 9"
    by (simp_all add: digitOf_decimal)
  then have "radixValue 10 fp * 10 + digitOf c < 10 ^ length fp * 10"
    by linarith
  then show ?case by (simp add: radixValue_snoc)
qed

text \<open>The fraction of a decimal is in \<open>[0, 1)\<close>.\<close>

lemma fraction_bounds:
  assumes "list_all isDecimalDigit fp"
  shows "0 \<le> (of_nat (radixValue 10 fp) :: rat) / 10 ^ length fp"
    and "(of_nat (radixValue 10 fp) :: rat) / 10 ^ length fp < 1"
proof -
  show "0 \<le> (of_nat (radixValue 10 fp) :: rat) / 10 ^ length fp" by simp
  have "(of_nat (radixValue 10 fp) :: rat) < of_nat (10 ^ length fp)"
    using radixValue_bound[OF assms] by (simp only: of_nat_less_iff)
  then show "(of_nat (radixValue 10 fp) :: rat) / 10 ^ length fp < 1" by simp
qed

lemma floor_decimalOf:
  assumes "list_all isDecimalDigit fp"
  shows "\<lfloor>decimalOf ip fp\<rfloor> = int (radixValue 10 ip)"
proof -
  let ?x = "(of_nat (radixValue 10 fp) :: rat) / 10 ^ length fp"
  from fraction_bounds[OF assms]
  have "\<lfloor>of_int (int (radixValue 10 ip)) + ?x\<rfloor> = int (radixValue 10 ip)"
    unfolding floor_eq_iff by linarith
  then show ?thesis by (simp add: decimalOf_def)
qed

lemma decimalOf_integral:
  assumes "list_all isDecimalDigit fp" and "of_int z = decimalOf ip fp"
  shows "decimalOf ip fp = of_nat (radixValue 10 ip)"
proof -
  have "of_int \<lfloor>decimalOf ip fp\<rfloor> = decimalOf ip fp"
    using assms(2)[symmetric] by simp
  then show ?thesis by (simp add: floor_decimalOf[OF assms(1)])
qed

lemma whiteSpaceBytes_ascii:
  "a < 128 \<Longrightarrow> a \<notin> set [9, 10, 11, 12, 13, 32] \<Longrightarrow> whiteSpaceBytes (a # rest) = 0"
  by (auto simp: isWhiteSpace3_def split: list.splits)

lemma trimStart_none: "whiteSpaceBytes (map of_char (take 3 s)) = 0 \<Longrightarrow> trimStart s = s"
  by (subst trimStart.simps) simp

lemma trimStart_ascii:
  assumes "(of_char c :: nat) < 128" and "(of_char c :: nat) \<notin> set [9, 10, 11, 12, 13, 32]"
  shows "trimStart (c # t) = c # t"
  by (rule trimStart_none) (simp add: whiteSpaceBytes_ascii[OF assms] del: whiteSpaceBytes.simps)

lemma not_hex_prefix:
  assumes "takeWhile isDecimalDigit body \<noteq> []"
    and "dropWhile isDecimalDigit body = [] \<or> hd (dropWhile isDecimalDigit body) = CHR ''.''"
  shows "\<not> (2 \<le> length body \<and> (take 2 body = ''0x'' \<or> take 2 body = ''0X''))"
proof (cases body)
  case Nil
  then show ?thesis by simp
next
  case (Cons a t)
  show ?thesis
  proof (cases t)
    case Nil
    with Cons show ?thesis by simp
  next
    case (Cons b u)
    with \<open>body = a # t\<close> assms show ?thesis
      by (auto simp: isDecimalDigit_def split: if_splits)
  qed
qed

lemma parseInt_decimal:
  assumes "takeWhile isDecimalDigit body \<noteq> []"
    and "dropWhile isDecimalDigit body = [] \<or> hd (dropWhile isDecimalDigit body) = CHR ''.''"
    and "n = radixValue 10 (takeWhile isDecimalDigit body)"
  shows "parseInt body = roundDouble (of_nat n)"
    and "parseInt (CHR ''+'' # body) = roundDouble (of_nat n)"
    and "parseInt (CHR ''-'' # body) = (if n = 0 then NegZero else roundDouble (- of_nat n))"
proof -
  obtain a t where body: "body = a # t" and a: "isDecimalDigit a"
    using assms(1) by (cases body) (auto split: if_splits)
  have ascii: "(of_char a :: nat) < 128" "(of_char a :: nat) \<notin> set [9, 10, 11, 12, 13, 32]"
    and sg: "a \<noteq> CHR ''-''" "a \<noteq> CHR ''+''"
    using a by (auto simp: isDecimalDigit_def)
  note nh = not_hex_prefix[OF assms(1,2)]
  have dw: "trimStart body = body"
    unfolding body by (rule trimStart_ascii[OF ascii])
  have ne: "body \<noteq> []" and hd: "hd body \<noteq> CHR ''-''" "hd body \<noteq> CHR ''+''"
    using sg by (simp_all add: body)
  have z: "roundDouble 0 = Num 0" by (simp add: roundDouble_def)
  show "parseInt body = roundDouble (of_nat n)"
    unfolding parseInt_def Let_def
    by (simp add: dw ne hd nh isRadixDigit_10 assms(1) assms(3)[symmetric] z)
  have wp: "trimStart (CHR ''+'' # body) = CHR ''+'' # body"
    by (rule trimStart_ascii) simp_all
  show "parseInt (CHR ''+'' # body) = roundDouble (of_nat n)"
    unfolding parseInt_def Let_def wp
    by (simp add: nh isRadixDigit_10 assms(1) assms(3)[symmetric] z)
  have wm: "trimStart (CHR ''-'' # body) = CHR ''-'' # body"
    by (rule trimStart_ascii) simp_all
  show "parseInt (CHR ''-'' # body) = (if n = 0 then NegZero else roundDouble (- of_nat n))"
    unfolding parseInt_def Let_def wm
    by (simp add: nh isRadixDigit_10 assms(1) assms(3)[symmetric])
qed

lemma parseInt_floor:
  assumes "decimalValue g = Some v" and "0 \<le> v \<or> of_int \<lfloor>v\<rfloor> = v"
  shows "spec_floor g = Some (parseInt g)"
proof -
  define signed where "signed = (g \<noteq> [] \<and> (hd g = CHR ''-'' \<or> hd g = CHR ''+''))"
  define body where "body = (if signed then tl g else g)"
  define ip where "ip = takeWhile isDecimalDigit body"
  define rest where "rest = dropWhile isDecimalDigit body"
  define n where "n = radixValue 10 ip"
  define d where "d = decimalOf ip (tl rest)"
  from assms(1) have ip: "ip \<noteq> []"
    and rest: "rest = [] \<or> (hd rest = CHR ''.'' \<and> list_all isDecimalDigit (tl rest))"
    and v: "v = (if hasMinus g then - 1 else 1) * d"
    unfolding decimalValue_def Let_def signed_def body_def ip_def rest_def d_def
    by (auto split: if_splits)
  have fp: "list_all isDecimalDigit (tl rest)"
    using rest by auto
  have fl: "\<lfloor>d\<rfloor> = int n"
    unfolding d_def n_def by (rule floor_decimalOf[OF fp])
  have d0: "0 \<le> d" by (simp add: d_def decimalOf_def)
  have r': "dropWhile isDecimalDigit body = [] \<or> hd (dropWhile isDecimalDigit body) = CHR ''.''"
    using rest unfolding rest_def by auto
  note pi = parseInt_decimal[OF ip[unfolded ip_def] r' n_def[unfolded ip_def]]
  have sf: "spec_floor g = Some (if v = 0 \<and> hasMinus g then NegZero
                                  else roundDouble (of_int \<lfloor>v\<rfloor>))"
    by (simp add: spec_floor_def assms(1))
  consider (minus) "hasMinus g" | (plus) "\<not> hasMinus g" "signed" | (none) "\<not> signed"
    by auto
  then show ?thesis
  proof cases
    case none
    then have g: "g = body" and nm: "\<not> hasMinus g"
      by (auto simp: body_def signed_def hasMinus_def)
    from nm v fl have "of_int \<lfloor>v\<rfloor> = (of_nat n :: rat)" by simp
    with nm show ?thesis by (simp add: sf g[symmetric] pi(1)[folded g])
  next
    case plus
    then have g: "g = CHR ''+'' # body"
      unfolding signed_def body_def hasMinus_def by (cases g) auto
    from plus v fl have "of_int \<lfloor>v\<rfloor> = (of_nat n :: rat)" by simp
    with plus(1) show ?thesis by (simp add: sf pi(2)[folded g])
  next
    case minus
    then have g: "g = CHR ''-'' # body"
      unfolding signed_def body_def hasMinus_def by (cases g) auto
    from minus v have vd: "v = - d" by simp
    have dn: "d = of_nat n"
    proof (cases "0 \<le> v")
      case True
      with vd d0 have "d = 0" by simp
      with fl show ?thesis by simp
    next
      case False
      with assms(2) have iv: "of_int \<lfloor>v\<rfloor> = v" by blast
      have "of_int (- \<lfloor>v\<rfloor>) = d"
        unfolding of_int_minus using iv vd by linarith
      from decimalOf_integral[OF fp this[unfolded d_def]]
      show ?thesis by (simp add: d_def n_def)
    qed
    have "(if v = 0 \<and> hasMinus g then NegZero else roundDouble (of_int \<lfloor>v\<rfloor>))
            = (if n = 0 then NegZero else roundDouble (- of_nat n))"
      using minus by (simp add: vd dn)
    then show ?thesis by (simp add: sf pi(3)[folded g])
  qed
qed

subsection \<open>Auxiliary facts about the route lookup and the pool deposit\<close>

lemma selfChain_iff:
  "((thornodeType E = thorchain \<and> c = THORChain) \<or> (thornodeType E = mayachain \<and> c = Maya))
     = (c = chainOf (pluginChain E))"
  by (cases "pluginChain E") (auto simp: thornodeType_def)

lemma getInboundDataByChain_other:
  assumes "c \<noteq> chainOf (pluginChain E)"
  shows "getInboundDataByChain E c h =
     (case getInboundAddresses E (endpointParams E) h of
        Inl e \<Rightarrow> (Inl e, h @ [GetInboundAddresses (endpointParams E)])
      | Inr inboundData \<Rightarrow>
          (case find (\<lambda>item. ib_chain item = c) inboundData of
             None \<Rightarrow> (Inl (SwapKitError core_inbound_data_not_found None),
                       h @ [GetInboundAddresses (endpointParams E)])
           | Some d \<Rightarrow>
               if halted d
               then (Inl (SwapKitError core_chain_halted None),
                     h @ [GetInboundAddresses (endpointParams E)])
               else (Inr d, h @ [GetInboundAddresses (endpointParams E)])))"
  using assms unfolding getInboundDataByChain_def selfChain_iff
  by (simp add: await_def call_def throw_def resolve_def split: sum.splits option.splits)

lemma getInboundDataByChain_history:
  "snd (getInboundDataByChain E c h) = h \<or>
   snd (getInboundDataByChain E c h) = h @ [GetInboundAddresses (endpointParams E)]"
proof (cases "c = chainOf (pluginChain E)")
  case True
  then show ?thesis
    by (simp add: getInboundDataByChain_def selfChain_iff resolve_def)
next
  case False
  then show ?thesis
    by (simp add: getInboundDataByChain_other split: sum.splits option.splits)
qed

lemma depositCalls_append: "depositCalls (h @ k) = depositCalls h @ depositCalls k"
  by (induction h rule: depositCalls.induct) simp_all

lemma walletCalls_append: "walletCalls (h @ k) = walletCalls h @ walletCalls k"
  by (induction h rule: walletCalls.induct) simp_all

lemma depositToPool_resolved:
  assumes "getInboundDataByChain E (av_chain assetValue) h = (Inr inbound, h')"
  shows "depositToPool E assetValue memo feeOptionKey h =
     (deposit E h' (poolDepositParams inbound assetValue memo
                      (case feeOptionKey of None \<Rightarrow> Fast | Some k \<Rightarrow> k)),
      h' @ [DepositCall (poolDepositParams inbound assetValue memo
                      (case feeOptionKey of None \<Rightarrow> Fast | Some k \<Rightarrow> k))])"
  using assms by (simp add: depositToPool_def await_def call_def Let_def)

lemma depositToPool_unresolved:
  assumes "getInboundDataByChain E (av_chain assetValue) h = (Inl e, h')"
  shows "depositToPool E assetValue memo feeOptionKey h = (Inl e, h')"
  using assms by (simp add: depositToPool_def await_def)

lemma depositToPool_calls:
  "depositCalls (snd (depositToPool E v m k h)) = depositCalls h \<or>
   (\<exists>inbound. depositCalls (snd (depositToPool E v m k h)) =
      depositCalls h @ [poolDepositParams inbound v m (case k of None \<Rightarrow> Fast | Some k' \<Rightarrow> k')])"
proof (cases "getInboundDataByChain E (av_chain v) h")
  case (Pair r h')
  from getInboundDataByChain_history[of E "av_chain v" h] Pair
  have dc: "depositCalls h' = depositCalls h"
    by (auto simp: depositCalls_append)
  show ?thesis
  proof (cases r)
    case (Inl e)
    with Pair dc show ?thesis by (simp add: depositToPool_unresolved)
  next
    case (Inr inbound)
    with Pair dc show ?thesis by (auto simp: depositToPool_resolved depositCalls_append)
  qed
qed

lemma depositToPool_success_calls:
  assumes "depositToPool E v m k h = (Inr tx, h1)"
  shows "\<exists>inbound. depositCalls h1 =
      depositCalls h @ [poolDepositParams inbound v m (case k of None \<Rightarrow> Fast | Some k' \<Rightarrow> k')]"
proof (cases "getInboundDataByChain E (av_chain v) h")
  case (Pair r h')
  from getInboundDataByChain_history[of E "av_chain v" h] Pair
  have dc: "depositCalls h' = depositCalls h"
    by (auto simp: depositCalls_append)
  show ?thesis
  proof (cases r)
    case (Inl e)
    with Pair assms show ?thesis by (simp add: depositToPool_unresolved)
  next
    case (Inr inbound)
    with Pair dc assms show ?thesis by (auto simp: depositToPool_resolved depositCalls_append)
  qed
qed

lemma depositToPool_extends: "\<exists>evs. snd (depositToPool E v m k h) = h @ evs"
proof (cases "getInboundDataByChain E (av_chain v) h")
  case (Pair r h')
  from getInboundDataByChain_history[of E "av_chain v" h] Pair
  have "\<exists>evs. h' = h @ evs" by auto
  with Pair show ?thesis
    by (cases r) (auto simp: depositToPool_unresolved depositToPool_resolved)
qed

subsection \<open>Bounds on the basis points, and some doubles\<close>

lemma roundDouble_not_NaN: "roundDouble x \<noteq> NaN"
  by (simp add: roundDouble_def Let_def)

lemma roundDouble_nonneg: "0 \<le> x \<Longrightarrow> num_le (Num 0) (roundDouble x)"
proof -
  assume x: "0 \<le> x"
  have nn: "0 \<le> of_int (roundHalfEven (\<bar>x\<bar> / 2 powi e)) * (2::rat) powi e" for e
  proof -
    have "0 \<le> \<bar>x\<bar> / 2 powi e" using powi_pos[of e] by simp
    then have "0 \<le> roundHalfEven (\<bar>x\<bar> / 2 powi e)" by (rule roundHalfEven_nonneg)
    then show ?thesis using powi_pos[of e] by simp
  qed
  from nn[of "max (floorLog2 \<bar>x\<bar>) (- 1022) - 52"] x show ?thesis
    by (auto simp: roundDouble_def Let_def num_le_def)
qed

lemma num_times_100_not_NaN: "p \<noteq> NaN \<Longrightarrow> num_times p (Num 100) \<noteq> NaN"
  by (cases p) (simp_all add: num_times_def roundDouble_not_NaN)

lemma num_times_100_nonneg: "num_le (Num 0) p \<Longrightarrow> num_le (Num 0) (num_times p (Num 100))"
proof (cases p)
  case (Num r)
  assume "num_le (Num 0) p"
  with Num have "0 \<le> r" by (simp add: num_le_def)
  then have "num_le (Num 0) (roundDouble (r * 100))" by (intro roundDouble_nonneg) simp
  with Num \<open>0 \<le> r\<close> show ?thesis by (simp add: num_times_def num_le_def)
qed (simp_all add: num_times_def num_le_def)

lemma Math_round_not_NaN: "x \<noteq> NaN \<Longrightarrow> Math_round x \<noteq> NaN"
  by (cases x) simp_all

lemma Math_round_nonneg: "num_le (Num 0) x \<Longrightarrow> num_le (Num 0) (Math_round x)"
proof (cases x)
  case (Num r)
  assume "num_le (Num 0) x"
  with Num have "0 \<le> r" by (simp add: num_le_def)
  then have "0 \<le> \<lfloor>r + 1 / 2\<rfloor>" by simp
  with Num \<open>0 \<le> r\<close> show ?thesis by (simp add: num_le_def)
qed (simp_all add: num_le_def)

lemma Math_min_upper: "x \<noteq> NaN \<Longrightarrow> num_le (Math_min (Num 10000) x) (Num 10000)"
  by (cases x) (simp_all add: Math_min_def num_le_def)

lemma Math_min_nonneg: "num_le (Num 0) x \<Longrightarrow> num_le (Num 0) (Math_min (Num 10000) x)"
  by (cases x) (simp_all add: Math_min_def num_le_def)

lemma basisPoints_upper: "percent \<noteq> NaN \<Longrightarrow> num_le (basisPoints percent) (Num 10000)"
  unfolding basisPoints_def
  by (intro Math_min_upper Math_round_not_NaN num_times_100_not_NaN)

lemma basisPoints_nonneg: "num_le (Num 0) percent \<Longrightarrow> num_le (Num 0) (basisPoints percent)"
  unfolding basisPoints_def
  by (intro Math_min_nonneg Math_round_nonneg num_times_100_nonneg)

lemma roundDouble_values:
  "roundDouble 0 = Num 0" "roundDouble 2 = Num 2" "roundDouble 3 = Num 3"
  "roundDouble 10 = Num 10" "roundDouble 12 = Num 12" "roundDouble 15 = Num 15"
  "roundDouble 18 = Num 18" "roundDouble (3 / 2) = Num (3 / 2)"
  "roundDouble 15000 = Num 15000" "roundDouble 5000 = Num 5000"
  "roundDouble (- 3) = Num (- 3)" "roundDouble (- 100) = Num (- 100)"
  "roundDouble (- (9 / 2)) = Num (- (9 / 2))" "roundDouble (- 6) = Num (- 6)"
  "roundDouble (- 4) = Num (- 4)"
  "roundDouble 18014398509481984 = Num 18014398509481984"
  "roundDouble (223 / 2) = Num (223 / 2)"
proof -
  show "roundDouble 0 = Num 0" by (simp add: roundDouble_def)
  show "roundDouble 2 = Num 2" by (rule roundDouble_exact(1)[of 1 2 _]) simp_all
  show "roundDouble 3 = Num 3" by (rule roundDouble_exact(1)[of 1 3 _]) simp_all
  show "roundDouble 10 = Num 10" by (rule roundDouble_exact(1)[of 3 10 _]) simp_all
  show "roundDouble 12 = Num 12" by (rule roundDouble_exact(1)[of 3 12 _]) simp_all
  show "roundDouble 15 = Num 15" by (rule roundDouble_exact(1)[of 3 15 _]) simp_all
  show "roundDouble 18 = Num 18" by (rule roundDouble_exact(1)[of 4 18 _]) simp_all
  show "roundDouble (3 / 2) = Num (3 / 2)" by (rule roundDouble_exact(1)[of 0 "3 / 2" _]) simp_all
  show "roundDouble 15000 = Num 15000" by (rule roundDouble_exact(1)[of 13 15000 _]) simp_all
  show "roundDouble 5000 = Num 5000" by (rule roundDouble_exact(1)[of 12 5000 _]) simp_all
  show "roundDouble (- 3) = Num (- 3)" by (rule roundDouble_exact(2)[of 1 3 _]) simp_all
  show "roundDouble (- 100) = Num (- 100)" by (rule roundDouble_exact(2)[of 6 100 _]) simp_all
  show "roundDouble (- (9 / 2)) = Num (- (9 / 2))"
    by (rule roundDouble_exact(2)[of 2 "9 / 2" _]) simp_all
  show "roundDouble (- 6) = Num (- 6)" by (rule roundDouble_exact(2)[of 2 6 _]) simp_all
  show "roundDouble (- 4) = Num (- 4)" by (rule roundDouble_exact(2)[of 2 4 _]) simp_all
  show "roundDouble 18014398509481984 = Num 18014398509481984"
    by (rule roundDouble_exact(1)[of 54 18014398509481984 _]) simp_all
  show "roundDouble (223 / 2) = Num (223 / 2)"
    by (rule roundDouble_exact(1)[of 6 "223 / 2" _]) simp_all
qed

text \<open>The double of the literal 1.2, and three products that are not exact.\<close>

lemma roundDouble_6_5: "roundDouble (6 / 5) = Num (5404319552844595 / 4503599627370496)"
proof -
  have n: "5404319552844595 = roundHalfEven ((6 / 5) / 2 powi (0 - 52))"
    by (rule roundHalfEven_down[symmetric]) simp_all
  from roundDouble_eval(1)[OF _ _ _ n] show ?thesis by simp
qed

lemma three_times_1_2:
  "roundDouble (3 * (5404319552844595 / 4503599627370496)) =
     Num (2026619832316723 / 562949953421312)"
proof -
  have n: "8106479329266892 =
             roundHalfEven ((3 * (5404319552844595 / 4503599627370496)) / 2 powi (1 - 52))"
    using roundHalfEven_tie[of "(3 * (5404319552844595 / 4503599627370496)) / 2 powi (1 - 52)"
            8106479329266892]
    by simp
  from roundDouble_eval(1)[OF _ _ _ n] show ?thesis by simp
qed

lemma roundDouble_2_53_plus_1: "roundDouble 9007199254740993 = Num 9007199254740992"
proof -
  have n: "4503599627370496 = roundHalfEven (9007199254740993 / 2 powi (53 - 52))"
    using roundHalfEven_tie[of "9007199254740993 / 2 powi (53 - 52)" 4503599627370496]
    by simp
  from roundDouble_eval(1)[OF _ _ _ n] show ?thesis by simp
qed

lemma percent_1_115:
  "roundDouble (5021513584518103 / 4503599627370496 * 100) = Num (223 / 2)"
proof -
  have n: "7846114975809536 =
             roundHalfEven ((5021513584518103 / 4503599627370496 * 100) / 2 powi (6 - 52))"
    using roundHalfEven_up[of 7846114975809535
            "(5021513584518103 / 4503599627370496 * 100) / 2 powi (6 - 52)"]
    by simp
  from roundDouble_eval(1)[OF _ _ _ n] show ?thesis by simp
qed

subsection \<open>Evaluating the example environment\<close>

lemmas example_defs =
  exampleEnv_def exampleWallets_def okDeposit_def failingDeposit_def firstOnlyDeposit_def
  inboundEntry_def gasAsset_def

lemmas io_defs = resolve_def throw_def await_def call_def

lemmas lookup_defs =
  getInboundDataByChain_def thornodeType_def endpointParams_def selfInboundData_def

lemmas digit_defs = isDecimalDigit_def radixValue_def digitOf_def digitValue_def

lemmas decimal_defs = decimalValue_def decimalOf_def hasMinus_def digit_defs

lemma showNat_digit: "n < 10 \<Longrightarrow> showNat n = [digitChar n]"
  by (simp add: showNat.simps)

lemma showNat_step: "10 \<le> n \<Longrightarrow> showNat n = showNat (n div 10) @ [digitChar (n mod 10)]"
  by (subst showNat.simps) simp

lemmas show_defs = showInt_def showNat_digit showNat_step digitChar_def

lemma parseInt_digits:
  assumes "list_all isDecimalDigit s" and "s \<noteq> []"
  shows "parseInt s = roundDouble (of_nat (radixValue 10 s))"
proof -
  have "takeWhile isDecimalDigit s = s" and "dropWhile isDecimalDigit s = []"
    using assms(1) by (simp_all add: list_all_iff)
  with parseInt_decimal(1)[of s "radixValue 10 s"] assms(2) show ?thesis by simp
qed

lemma parseInt_10: "parseInt ''10'' = Num 10" and parseInt_0: "parseInt ''0'' = Num 0"
  by (simp_all add: parseInt_digits digit_defs roundDouble_values)

lemma times_10_Fast: "num_times (Num 10) (gasFeeMultiplier Fast) = Num 15"
  and times_0_Fast: "num_times (Num 0) (gasFeeMultiplier Fast) = Num 0"
  by (simp_all add: num_times_def roundDouble_values)

lemma example_lookup:
  assumes "c \<noteq> THORChain" and "find (\<lambda>item. ib_chain item = c) table = Some d"
    and "\<not> halted d"
  shows "getInboundDataByChain (exampleEnv dep table) c h =
           (Inr d, h @ [GetInboundAddresses \<lparr>ep_stagenet = False, ep_type = thorchain\<rparr>])"
  using assms by (simp add: exampleEnv_def lookup_defs io_defs)

lemma example_lookup_self:
  "getInboundDataByChain (exampleEnv dep table) THORChain h =
     (Inr \<lparr>ib_chain = THORChain, gas_rate = Some ''0'', ib_router = Some [], ib_address = [],
           halted = False\<rparr>, h)"
  by (simp add: exampleEnv_def lookup_defs io_defs)

subsection \<open>The claims\<close>

text \<open>
  C1 (as amended). Whenever the inbound route of the asset's chain resolves,
  \<open>depositToPool\<close> calls the deposit primitive once, with the asset value and memo it
  was given, the route's inbound address as recipient, the route's router, and the fee
  rate \<^verbatim>\<open>Number.parseInt(gas_rate) * multiplier\<close> in double arithmetic, where the
  gas-rate string is \<open>"0"\<close> when the route has none and the multiplier is the double of
  1.2, 1.5 or 2 for Average, Fast (the default) or Fastest. \<open>parseInt\<close> reads the leading
  integer of the string, so it drops the fraction of a decimal, towards zero. For every
  gas-rate string in plain decimal notation (an optional sign, digits, and optionally a
  point and digits) whose value is not negative or is an integer, the fee rate is
  \<open>floor(gas rate) * multiplier\<close>, as the spec reads it, the floor and the product each
  rounded to a double. Nothing is said of the floor for a string in another notation.
\<close>

theorem depositToPool_feeRate:
  assumes "getInboundDataByChain E (av_chain assetValue) h = (Inr inbound, h')"
    and "gasRateString = (case gas_rate inbound of None \<Rightarrow> ''0'' | Some g \<Rightarrow> g)"
    and "k = (case feeOptionKey of None \<Rightarrow> Fast | Some k' \<Rightarrow> k')"
  shows "\<exists>P. depositToPool E assetValue memo feeOptionKey h = (deposit E h' P, h' @ [DepositCall P])
           \<and> dp_assetValue P = assetValue \<and> dp_memo P = memo
           \<and> dp_recipient P = ib_address inbound \<and> dp_router P = ib_router inbound
           \<and> dp_feeRate P =
               Some (num_times (parseInt gasRateString)
                       (case k of Average \<Rightarrow> roundDouble (12 / 10)
                                | Fast \<Rightarrow> roundDouble (15 / 10)
                                | Fastest \<Rightarrow> roundDouble 2))
           \<and> (\<forall>v. decimalValue gasRateString = Some v \<and> (0 \<le> v \<or> of_int \<lfloor>v\<rfloor> = v) \<longrightarrow>
                  dp_feeRate P = spec_feeRate gasRateString k)"
proof -
  let ?P = "poolDepositParams inbound assetValue memo k"
  have call: "depositToPool E assetValue memo feeOptionKey h = (deposit E h' ?P, h' @ [DepositCall ?P])"
    using depositToPool_resolved[OF assms(1)] assms(3) by simp
  have mult: "gasFeeMultiplier k = spec_multiplier k"
    by (cases k) (simp_all add: spec_multiplier_def)
  have fee: "dp_feeRate ?P = Some (num_times (parseInt gasRateString) (spec_multiplier k))"
    by (simp add: poolDepositParams_def assms(2) mult)
  have "dp_feeRate ?P = spec_feeRate gasRateString k"
    if "decimalValue gasRateString = Some v" "0 \<le> v \<or> of_int \<lfloor>v\<rfloor> = v" for v
    using parseInt_floor[OF that] by (simp add: fee spec_feeRate_def)
  with call fee show ?thesis
    by (intro exI[of _ ?P]) (simp add: poolDepositParams_def spec_multiplier_def)
qed

text \<open>
  The default fee option on the gas rate \<open>"12.7"\<close>: the fee rate is \<open>12 * 1.5 = 18\<close>. Two
  products that are rounded: for \<open>"3"\<close> and Average the fee rate is the double below 3.6
  (printed \<open>3.5999999999999996\<close>), and for \<open>"9007199254740993"\<close>, which is \<open>2\<^sup>5\<^sup>3 + 1\<close>, and
  Fastest it is \<open>2\<^sup>5\<^sup>4\<close>.
\<close>

theorem depositToPool_feeRate_witness:
  "depositToPool (exampleEnv okDeposit [inboundEntry (OtherChain ''ETH'') ''12.7'' False])
     (gasAsset (OtherChain ''ETH'') 5) ''memo'' None [] =
     (Inr ''txid'',
      [GetInboundAddresses \<lparr>ep_stagenet = False, ep_type = thorchain\<rparr>,
       DepositCall \<lparr>dp_assetValue = gasAsset (OtherChain ''ETH'') 5, dp_recipient = ''0xvault'',
                    dp_memo = ''memo'', dp_router = Some ''0xrouter'',
                    dp_feeRate = Some (Num 18)\<rparr>])
   \<and> decimalValue ''12.7'' = Some (127 / 10)
   \<and> spec_feeRate ''12.7'' Fast = Some (Num 18)
   \<and> num_times (parseInt ''3'') (gasFeeMultiplier Average) =
       Num (2026619832316723 / 562949953421312)
   \<and> num_times (parseInt ''9007199254740993'') (gasFeeMultiplier Fastest) =
       Num 18014398509481984"
proof -
  let ?E = "exampleEnv okDeposit [inboundEntry (OtherChain ''ETH'') ''12.7'' False]"
  let ?h = "[GetInboundAddresses \<lparr>ep_stagenet = False, ep_type = thorchain\<rparr>]"
  have lookup: "getInboundDataByChain ?E (av_chain (gasAsset (OtherChain ''ETH'') 5)) [] =
          (Inr (inboundEntry (OtherChain ''ETH'') ''12.7'' False), ?h)"
    by (simp add: example_defs lookup_defs io_defs)
  have gas: "''12.7'' = (case gas_rate (inboundEntry (OtherChain ''ETH'') ''12.7'' False) of
                          None \<Rightarrow> ''0'' | Some g \<Rightarrow> g)"
    by (simp add: inboundEntry_def)
  have key: "Fast = (case None of None \<Rightarrow> Fast | Some k' \<Rightarrow> k')"
    by simp
  have dv: "decimalValue ''12.7'' = Some (127 / 10)"
    by (simp add: decimal_defs)
  have "\<lfloor>127 / 10 :: rat\<rfloor> = 12"
    by (simp add: floor_eq_iff)
  with dv have sf: "spec_feeRate ''12.7'' Fast = Some (Num 18)"
    by (simp add: spec_feeRate_def spec_floor_def spec_multiplier_def hasMinus_def
          num_times_def roundDouble_values)
  from depositToPool_feeRate[OF lookup gas key, of "''memo''"] obtain P where
    run: "depositToPool ?E (gasAsset (OtherChain ''ETH'') 5) ''memo'' None [] =
            (deposit ?E ?h P, ?h @ [DepositCall P])"
    and av: "dp_assetValue P = gasAsset (OtherChain ''ETH'') 5"
    and memo: "dp_memo P = ''memo''"
    and rc: "dp_recipient P = ib_address (inboundEntry (OtherChain ''ETH'') ''12.7'' False)"
    and ro: "dp_router P = ib_router (inboundEntry (OtherChain ''ETH'') ''12.7'' False)"
    and floor: "\<forall>v. decimalValue ''12.7'' = Some v \<and> (0 \<le> v \<or> of_int \<lfloor>v\<rfloor> = v) \<longrightarrow>
                  dp_feeRate P = spec_feeRate ''12.7'' Fast"
    by blast
  have fee: "dp_feeRate P = spec_feeRate ''12.7'' Fast"
    by (rule floor[rule_format, OF conjI[OF dv]]) simp
  have P: "P = \<lparr>dp_assetValue = gasAsset (OtherChain ''ETH'') 5, dp_recipient = ''0xvault'',
                    dp_memo = ''memo'', dp_router = Some ''0xrouter'',
                    dp_feeRate = Some (Num 18)\<rparr>"
    using av memo rc ro fee sf by (cases P) (simp add: inboundEntry_def)
  have three: "num_times (parseInt ''3'') (gasFeeMultiplier Average) =
                 Num (2026619832316723 / 562949953421312)"
    using three_times_1_2
    by (simp add: parseInt_digits digit_defs roundDouble_values roundDouble_6_5 num_times_def)
  have big: "num_times (parseInt ''9007199254740993'') (gasFeeMultiplier Fastest) =
               Num 18014398509481984"
    by (simp add: parseInt_digits digit_defs roundDouble_values roundDouble_2_53_plus_1
          num_times_def)
  from run P dv sf three big show ?thesis
    by (simp add: example_defs)
qed

text \<open>
  The claim as stated, with \<open>floor\<close>, fails on the gas rate \<open>"-3.5"\<close>: the deposit gets
  the fee rate \<open>-3 * 1.5 = -4.5\<close>, while \<open>floor(-3.5) * 1.5 = -6\<close>.
\<close>

theorem depositToPool_feeRate_counterexample:
  "depositToPool (exampleEnv okDeposit [inboundEntry (OtherChain ''ETH'') ''-3.5'' False])
     (gasAsset (OtherChain ''ETH'') 5) ''memo'' (Some Fast) [] =
     (Inr ''txid'',
      [GetInboundAddresses \<lparr>ep_stagenet = False, ep_type = thorchain\<rparr>,
       DepositCall \<lparr>dp_assetValue = gasAsset (OtherChain ''ETH'') 5, dp_recipient = ''0xvault'',
                    dp_memo = ''memo'', dp_router = Some ''0xrouter'',
                    dp_feeRate = Some (Num (- 9 / 2))\<rparr>])
   \<and> decimalValue ''-3.5'' = Some (- 7 / 2)
   \<and> spec_feeRate ''-3.5'' Fast = Some (Num (- 6))
   \<and> Some (Num (- 9 / 2)) \<noteq> spec_feeRate ''-3.5'' Fast"
proof -
  let ?E = "exampleEnv okDeposit [inboundEntry (OtherChain ''ETH'') ''-3.5'' False]"
  let ?h = "[GetInboundAddresses \<lparr>ep_stagenet = False, ep_type = thorchain\<rparr>]"
  have lookup: "getInboundDataByChain ?E (av_chain (gasAsset (OtherChain ''ETH'') 5)) [] =
          (Inr (inboundEntry (OtherChain ''ETH'') ''-3.5'' False), ?h)"
    by (simp add: example_defs lookup_defs io_defs)
  have "parseInt (CHR ''-'' # ''3.5'') = roundDouble (- 3)"
    using parseInt_decimal(3)[OF _ _ refl, of "''3.5''"] by (simp add: digit_defs)
  then have pi: "parseInt ''-3.5'' = Num (- 3)"
    by (simp add: roundDouble_values)
  have dv: "decimalValue ''-3.5'' = Some (- 7 / 2)"
    by (simp add: decimal_defs)
  have "\<lfloor>- 7 / 2 :: rat\<rfloor> = - 4"
    by (simp add: floor_eq_iff)
  with dv have sf: "spec_feeRate ''-3.5'' Fast = Some (Num (- 6))"
    by (simp add: spec_feeRate_def spec_floor_def spec_multiplier_def hasMinus_def
          num_times_def roundDouble_values)
  have "depositToPool ?E (gasAsset (OtherChain ''ETH'') 5) ''memo'' (Some Fast) [] =
     (Inr ''txid'',
      ?h @ [DepositCall \<lparr>dp_assetValue = gasAsset (OtherChain ''ETH'') 5,
                          dp_recipient = ''0xvault'', dp_memo = ''memo'',
                          dp_router = Some ''0xrouter'',
                          dp_feeRate = Some (Num (- 9 / 2))\<rparr>])"
    using depositToPool_resolved[OF lookup, where memo = "''memo''" and feeOptionKey = "Some Fast"]
    by (simp add: poolDepositParams_def inboundEntry_def pi exampleEnv_def okDeposit_def
          num_times_def roundDouble_values)
  with dv sf show ?thesis by simp
qed

text \<open>
  C2. For a chain other than the protocol chain whose routing table was fetched: with no
  entry for the chain the lookup fails with \<open>core_inbound_data_not_found\<close>; when the
  (first) entry of the chain is halted it fails with \<open>core_chain_halted\<close>, and then
  every \<open>depositToPool\<close> for an asset of that chain fails with \<open>core_chain_halted\<close>
  after the one lookup call, the deposit primitive not being called.
\<close>

theorem inbound_route_failures:
  assumes "c \<noteq> chainOf (pluginChain E)"
    and "getInboundAddresses E (endpointParams E) h = Inr table"
  shows "(find (\<lambda>item. ib_chain item = c) table = None \<longrightarrow>
            getInboundDataByChain E c h =
              (Inl (SwapKitError core_inbound_data_not_found None),
               h @ [GetInboundAddresses (endpointParams E)]))
       \<and> (\<forall>d. find (\<lambda>item. ib_chain item = c) table = Some d \<and> halted d \<longrightarrow>
            getInboundDataByChain E c h =
              (Inl (SwapKitError core_chain_halted None),
               h @ [GetInboundAddresses (endpointParams E)])
          \<and> (\<forall>assetValue memo feeOptionKey. av_chain assetValue = c \<longrightarrow>
               depositToPool E assetValue memo feeOptionKey h =
                 (Inl (SwapKitError core_chain_halted None),
                  h @ [GetInboundAddresses (endpointParams E)])
             \<and> depositCalls (snd (depositToPool E assetValue memo feeOptionKey h)) =
                 depositCalls h))"
proof -
  have nf: "getInboundDataByChain E c h =
              (Inl (SwapKitError core_inbound_data_not_found None),
               h @ [GetInboundAddresses (endpointParams E)])"
    if "find (\<lambda>item. ib_chain item = c) table = None"
    using that assms by (simp add: getInboundDataByChain_other)
  have ha: "getInboundDataByChain E c h =
              (Inl (SwapKitError core_chain_halted None),
               h @ [GetInboundAddresses (endpointParams E)])"
    if "find (\<lambda>item. ib_chain item = c) table = Some d" "halted d" for d
    using that assms by (simp add: getInboundDataByChain_other)
  have dp: "depositToPool E assetValue memo feeOptionKey h =
                 (Inl (SwapKitError core_chain_halted None),
                  h @ [GetInboundAddresses (endpointParams E)])"
    if "find (\<lambda>item. ib_chain item = c) table = Some d" "halted d" "av_chain assetValue = c"
    for d assetValue memo feeOptionKey
    using ha[OF that(1,2)] that(3) by (simp add: depositToPool_unresolved)
  show ?thesis
    using nf ha dp by (simp add: depositCalls_append)
qed

text \<open>A table with a halted ETH entry and no BTC entry.\<close>

theorem inbound_route_failures_witness:
  "getInboundDataByChain (exampleEnv okDeposit [inboundEntry (OtherChain ''ETH'') ''10'' True])
     (OtherChain ''BTC'') [] =
     (Inl (SwapKitError core_inbound_data_not_found None),
      [GetInboundAddresses \<lparr>ep_stagenet = False, ep_type = thorchain\<rparr>])
   \<and> getInboundDataByChain (exampleEnv okDeposit [inboundEntry (OtherChain ''ETH'') ''10'' True])
       (OtherChain ''ETH'') [] =
       (Inl (SwapKitError core_chain_halted None),
        [GetInboundAddresses \<lparr>ep_stagenet = False, ep_type = thorchain\<rparr>])
   \<and> depositToPool (exampleEnv okDeposit [inboundEntry (OtherChain ''ETH'') ''10'' True])
       (gasAsset (OtherChain ''ETH'') 5) ''memo'' None [] =
       (Inl (SwapKitError core_chain_halted None),
        [GetInboundAddresses \<lparr>ep_stagenet = False, ep_type = thorchain\<rparr>])"
proof -
  let ?E = "exampleEnv okDeposit [inboundEntry (OtherChain ''ETH'') ''10'' True]"
  have tb: "getInboundAddresses ?E (endpointParams ?E) [] =
              Inr [inboundEntry (OtherChain ''ETH'') ''10'' True]"
    by (simp add: example_defs)
  have ep: "endpointParams ?E = \<lparr>ep_stagenet = False, ep_type = thorchain\<rparr>"
    by (simp add: example_defs endpointParams_def thornodeType_def)
  have btc: "OtherChain ''BTC'' \<noteq> chainOf (pluginChain ?E)"
    and eth: "OtherChain ''ETH'' \<noteq> chainOf (pluginChain ?E)"
    by (simp_all add: example_defs)
  from inbound_route_failures[OF btc tb, unfolded ep]
       inbound_route_failures[OF eth tb, unfolded ep]
  show ?thesis
    by (simp add: inboundEntry_def gasAsset_def)
qed

text \<open>
  C3 (as amended). \<open>savings\<close> of type withdraw generates the memo for the basis points
  \<^verbatim>\<open>Math.min(10000, Math.round(percent * 100))\<close>, in double arithmetic: the product is
  rounded to a double before \<^verbatim>\<open>Math.round\<close> sees it. It deposits that memo (when the
  caller gives no memo of its own) with the minimum amount of the asset's chain instead
  of the asset value. For every percent other than \<open>NaN\<close> the basis points are at most
  10000, and they are in \<open>[0, 10000]\<close> whenever the percent is not negative; percent 150
  gives 10000. The statement is for the case that the inbound route of the minimum
  amount's chain resolves, so that a deposit is made.
\<close>

theorem savings_withdraw_basisPoints:
  assumes "getInboundDataByChain E (av_chain (getMinAmountByChain E (av_chain assetValue))) h
             = (Inr inbound, h')"
  shows "\<exists>P bp. savings E assetValue memo percent Savings_withdraw h
                   = (deposit E h' P, h' @ [DepositCall P])
           \<and> dp_assetValue P = getMinAmountByChain E (av_chain assetValue)
           \<and> bp = Math_min (Num 10000) (Math_round (num_times percent (Num 100)))
           \<and> (\<not> truthy memo \<longrightarrow>
                dp_memo P = getMemoForSaverWithdraw E bp (av_symbol assetValue)
                              (av_chain assetValue))
           \<and> (percent \<noteq> NaN \<longrightarrow> num_le bp (Num 10000))
           \<and> (num_le (Num 0) percent \<longrightarrow> num_le (Num 0) bp \<and> num_le bp (Num 10000))
           \<and> (percent = Num 150 \<longrightarrow> bp = Num 10000)"
proof -
  let ?bp = "Math_min (Num 10000) (Math_round (num_times percent (Num 100)))"
  let ?m = "strOr memo (getMemoForSaverWithdraw E ?bp (av_symbol assetValue)
                              (av_chain assetValue))"
  let ?P = "poolDepositParams inbound (getMinAmountByChain E (av_chain assetValue)) ?m Fast"
  have bp: "?bp = basisPoints percent"
    by (simp add: basisPoints_def)
  have "savings E assetValue memo percent Savings_withdraw h
                   = (deposit E h' ?P, h' @ [DepositCall ?P])"
    using depositToPool_resolved[OF assms, of ?m None]
    by (simp add: savings_def basisPoints_def Let_def)
  moreover have "\<not> truthy memo \<Longrightarrow> ?m = getMemoForSaverWithdraw E ?bp (av_symbol assetValue)
                              (av_chain assetValue)"
    by (auto simp: truthy_def strOr_def split: option.splits)
  moreover have "percent \<noteq> NaN \<Longrightarrow> num_le ?bp (Num 10000)"
    unfolding bp by (rule basisPoints_upper)
  moreover have "num_le (Num 0) percent \<Longrightarrow> num_le (Num 0) ?bp"
    unfolding bp by (rule basisPoints_nonneg)
  moreover have "num_le (Num 0) percent \<Longrightarrow> percent \<noteq> NaN"
    by (auto simp: num_le_def)
  moreover have "percent = Num 150 \<Longrightarrow> ?bp = Num 10000"
    by (simp add: num_times_def roundDouble_values Math_min_def)
  ultimately show ?thesis
    by (intro exI[of _ ?P] exI[of _ ?bp]) (simp add: poolDepositParams_def)
qed

text \<open>
  Percent 150 on a BTC position: the memo carries 10000 basis points. And the double of
  the literal 1.115 gives 112 basis points, since its product with 100 is rounded to the
  double 111.5.
\<close>

theorem savings_withdraw_basisPoints_witness:
  "savings (exampleEnv okDeposit [inboundEntry (OtherChain ''BTC'') ''10'' False])
     (gasAsset (OtherChain ''BTC'') 500) None (Num 150) Savings_withdraw [] =
     (Inr ''txid'',
      [GetInboundAddresses \<lparr>ep_stagenet = False, ep_type = thorchain\<rparr>,
       DepositCall \<lparr>dp_assetValue = gasAsset (OtherChain ''BTC'') 1, dp_recipient = ''0xvault'',
                    dp_memo = ''-:BTC/BTC:10000'', dp_router = Some ''0xrouter'',
                    dp_feeRate = Some (Num 15)\<rparr>])
   \<and> basisPoints (Num (5021513584518103 / 4503599627370496)) = Num 112"
proof -
  let ?E = "exampleEnv okDeposit [inboundEntry (OtherChain ''BTC'') ''10'' False]"
  let ?av = "gasAsset (OtherChain ''BTC'') 500"
  let ?h = "[GetInboundAddresses \<lparr>ep_stagenet = False, ep_type = thorchain\<rparr>]"
  let ?P = "\<lambda>m. \<lparr>dp_assetValue = gasAsset (OtherChain ''BTC'') 1, dp_recipient = ''0xvault'',
                 dp_memo = m, dp_router = Some ''0xrouter'', dp_feeRate = Some (Num 15)\<rparr>"
  have lookup: "getInboundDataByChain ?E (av_chain (getMinAmountByChain ?E (av_chain ?av))) [] =
          (Inr (inboundEntry (OtherChain ''BTC'') ''10'' False), ?h)"
    using example_lookup[of "OtherChain ''BTC''" _ _ okDeposit "[]"]
    by (simp add: exampleEnv_def gasAsset_def inboundEntry_def)
  from savings_withdraw_basisPoints[OF lookup, of None "Num 150"] obtain P bp where
    run: "savings ?E ?av None (Num 150) Savings_withdraw [] = (deposit ?E ?h P, ?h @ [DepositCall P])"
    and av: "dp_assetValue P = getMinAmountByChain ?E (av_chain ?av)"
    and memo: "\<not> truthy None \<longrightarrow>
                dp_memo P = getMemoForSaverWithdraw ?E bp (av_symbol ?av) (av_chain ?av)"
    and bp: "Num 150 = Num 150 \<longrightarrow> bp = Num 10000"
    by blast
  have m: "dp_memo P = ''-:BTC/BTC:10000''"
    using memo bp by (simp add: truthy_def exampleEnv_def gasAsset_def show_defs)
  have "\<exists>m. savings ?E ?av None (Num 150) Savings_withdraw [] =
          (Inr ''txid'', ?h @ [DepositCall (?P m)])"
    unfolding savings_def Let_def
    using depositToPool_resolved[OF lookup, where feeOptionKey = None]
    by (simp add: exampleEnv_def okDeposit_def gasAsset_def poolDepositParams_def inboundEntry_def
          parseInt_10 times_10_Fast del: gasFeeMultiplier.simps)
  with run have "P = ?P (dp_memo P)"
    by auto
  with run m have 1: "savings ?E ?av None (Num 150) Savings_withdraw [] =
     (Inr ''txid'', [GetInboundAddresses \<lparr>ep_stagenet = False, ep_type = thorchain\<rparr>,
                     DepositCall (?P ''-:BTC/BTC:10000'')])"
    by (simp add: exampleEnv_def okDeposit_def)
  have 2: "basisPoints (Num (5021513584518103 / 4503599627370496)) = Num 112"
    using percent_1_115
    by (simp add: basisPoints_def num_times_def Math_min_def floor_eq_iff)
  from 1 2 show ?thesis by (rule conjI)
qed

text \<open>
  The claim as stated fails below zero, where nothing clamps: percent \<open>-1\<close> is encoded
  as \<open>-100\<close> basis points.
\<close>

theorem savings_withdraw_basisPoints_counterexample:
  "savings (exampleEnv okDeposit [inboundEntry (OtherChain ''BTC'') ''10'' False])
     (gasAsset (OtherChain ''BTC'') 500) None (Num (- 1)) Savings_withdraw [] =
     (Inr ''txid'',
      [GetInboundAddresses \<lparr>ep_stagenet = False, ep_type = thorchain\<rparr>,
       DepositCall \<lparr>dp_assetValue = gasAsset (OtherChain ''BTC'') 1, dp_recipient = ''0xvault'',
                    dp_memo = ''-:BTC/BTC:-100'', dp_router = Some ''0xrouter'',
                    dp_feeRate = Some (Num 15)\<rparr>])
   \<and> basisPoints (Num (- 1)) = Num (- 100)
   \<and> \<not> num_le (Num 0) (Num (- 100))"
proof -
  let ?E = "exampleEnv okDeposit [inboundEntry (OtherChain ''BTC'') ''10'' False]"
  let ?av = "gasAsset (OtherChain ''BTC'') 500"
  let ?h = "[GetInboundAddresses \<lparr>ep_stagenet = False, ep_type = thorchain\<rparr>]"
  have fl: "\<lfloor>- (199 / 2 :: rat)\<rfloor> = - 100"
    by (simp add: floor_eq_iff)
  have bp: "basisPoints (Num (- 1)) = Num (- 100)"
    by (simp add: basisPoints_def num_times_def roundDouble_values Math_min_def fl)
  have lookup: "getInboundDataByChain ?E (av_chain (getMinAmountByChain ?E (av_chain ?av))) [] =
          (Inr (inboundEntry (OtherChain ''BTC'') ''10'' False), ?h)"
    using example_lookup[of "OtherChain ''BTC''" _ _ okDeposit "[]"]
    by (simp add: exampleEnv_def gasAsset_def inboundEntry_def)
  have "savings ?E ?av None (Num (- 1)) Savings_withdraw [] =
     (Inr ''txid'',
      [GetInboundAddresses \<lparr>ep_stagenet = False, ep_type = thorchain\<rparr>,
       DepositCall \<lparr>dp_assetValue = gasAsset (OtherChain ''BTC'') 1, dp_recipient = ''0xvault'',
                    dp_memo = ''-:BTC/BTC:-100'', dp_router = Some ''0xrouter'',
                    dp_feeRate = Some (Num 15)\<rparr>])"
    unfolding savings_def Let_def bp
    using depositToPool_resolved[OF lookup, where feeOptionKey = None]
    by (simp add: exampleEnv_def okDeposit_def gasAsset_def poolDepositParams_def inboundEntry_def
          parseInt_10 times_10_Fast strOr_def show_defs del: gasFeeMultiplier.simps)
  with bp show ?thesis by (simp add: num_le_def)
qed

text \<open>
  C4 (as amended). For a gas asset, a synthetic asset or an asset of a chain outside
  \<open>EVMChains\<close>, \<open>approve\<close> first looks up the inbound route of the asset's chain. When
  the lookup succeeds the result is \<open>true\<close> in check-only mode and \<open>"approved"\<close> in
  approve mode; when it fails, \<open>approve\<close> fails with the lookup's error. In both cases
  no wallet capability is called.
\<close>

theorem approve_trivial:
  assumes "isGasAsset assetValue \<or> isSynthetic assetValue
           \<or> av_chain assetValue \<notin> set (EVMChains E)"
  shows "approve E assetValue mode h =
           (case getInboundDataByChain E (av_chain assetValue) h of
              (Inl e, h') \<Rightarrow> (Inl e, h')
            | (Inr inbound, h') \<Rightarrow>
                (Inr (case mode of CheckOnly \<Rightarrow> IsApproved True
                                 | Approve \<Rightarrow> ApproveTx ''approved''), h'))
         \<and> walletCalls (snd (approve E assetValue mode h)) = walletCalls h"
proof -
  have eq: "approve E assetValue mode h =
           (case getInboundDataByChain E (av_chain assetValue) h of
              (Inl e, h') \<Rightarrow> (Inl e, h')
            | (Inr inbound, h') \<Rightarrow>
                (Inr (case mode of CheckOnly \<Rightarrow> IsApproved True
                                 | Approve \<Rightarrow> ApproveTx ''approved''), h'))"
    using assms
    by (cases mode) (auto simp: approve_def await_def resolve_def Let_def split: sum.splits prod.splits)
  have "snd (approve E assetValue mode h) = snd (getInboundDataByChain E (av_chain assetValue) h)"
    unfolding eq by (simp split: prod.splits sum.splits)
  with getInboundDataByChain_history[of E "av_chain assetValue" h]
  have "walletCalls (snd (approve E assetValue mode h)) = walletCalls h"
    by (auto simp: walletCalls_append)
  with eq show ?thesis by simp
qed

text \<open>The gas asset of a chain whose route is open, in both modes.\<close>

theorem approve_trivial_witness:
  "approve (exampleEnv okDeposit [inboundEntry (OtherChain ''ETH'') ''10'' False])
     (gasAsset (OtherChain ''ETH'') 5) CheckOnly [] =
     (Inr (IsApproved True), [GetInboundAddresses \<lparr>ep_stagenet = False, ep_type = thorchain\<rparr>])
   \<and> approve (exampleEnv okDeposit [inboundEntry (OtherChain ''ETH'') ''10'' False])
       (gasAsset (OtherChain ''ETH'') 5) Approve [] =
       (Inr (ApproveTx ''approved''),
        [GetInboundAddresses \<lparr>ep_stagenet = False, ep_type = thorchain\<rparr>])"
proof -
  let ?E = "exampleEnv okDeposit [inboundEntry (OtherChain ''ETH'') ''10'' False]"
  have gas: "isGasAsset (gasAsset (OtherChain ''ETH'') 5)
             \<or> isSynthetic (gasAsset (OtherChain ''ETH'') 5)
             \<or> av_chain (gasAsset (OtherChain ''ETH'') 5) \<notin> set (EVMChains ?E)"
    by (simp add: gasAsset_def)
  have lookup: "getInboundDataByChain ?E (av_chain (gasAsset (OtherChain ''ETH'') 5)) [] =
          (Inr (inboundEntry (OtherChain ''ETH'') ''10'' False),
           [GetInboundAddresses \<lparr>ep_stagenet = False, ep_type = thorchain\<rparr>])"
    by (simp add: example_defs lookup_defs io_defs)
  from approve_trivial[OF gas, of CheckOnly "[]"] approve_trivial[OF gas, of Approve "[]"]
  show ?thesis
    by (simp add: lookup)
qed

text \<open>
  The claim as stated fails for a gas asset of a chain whose route is halted: both modes
  fail with \<open>core_chain_halted\<close> instead of returning \<open>true\<close> or \<open>"approved"\<close>.
\<close>

theorem approve_trivial_counterexample:
  "isGasAsset (gasAsset (OtherChain ''ETH'') 5)
   \<and> approve (exampleEnv okDeposit [inboundEntry (OtherChain ''ETH'') ''10'' True])
       (gasAsset (OtherChain ''ETH'') 5) CheckOnly [] =
       (Inl (SwapKitError core_chain_halted None),
        [GetInboundAddresses \<lparr>ep_stagenet = False, ep_type = thorchain\<rparr>])
   \<and> approve (exampleEnv okDeposit [inboundEntry (OtherChain ''ETH'') ''10'' True])
       (gasAsset (OtherChain ''ETH'') 5) Approve [] =
       (Inl (SwapKitError core_chain_halted None),
        [GetInboundAddresses \<lparr>ep_stagenet = False, ep_type = thorchain\<rparr>])"
  by (simp add: approve_def example_defs lookup_defs io_defs)

text \<open>
  C5. The claim is that in \<open>createLiquidity\<close> with both values strictly positive a
  failing base leg gives the error \<open>core_transaction_create_liquidity_base_error\<close> with
  the cause attached, and a failing asset leg \<open>core_transaction_create_liquidity_asset_error\<close>.
  The code wraps each leg with that key and still does not tag: the function it hands to
  \<open>wrapWithThrow\<close> returns the promise of \<open>depositToPool\<close> without awaiting it, so it
  never throws, and the promise is awaited outside the wrapper. The failure of a leg is
  therefore the result of \<open>createLiquidity\<close> as it is, the cause alone under neither key.
  The order of the legs is as claimed: when the base leg fails the asset leg is not
  attempted (the history holds the base leg's deposit call at most), and when the asset
  leg fails the base leg's deposit has been dispatched before and stays in the history.
\<close>

theorem createLiquidity_leg_failures:
  assumes "gt0 baseAssetValue" and "gt0 assetValue"
    and "baseMemo = getMemoForDeposit E (av_chain assetValue) (av_symbol assetValue)
                      (getAddress E (wallets E) (av_chain assetValue))"
    and "assetMemo = getMemoForDeposit E (av_chain assetValue) (av_symbol assetValue)
                       (getAddress E (wallets E) (chainOf (pluginChain E)))"
  shows "(\<forall>cause h1. depositToPool E baseAssetValue baseMemo None h = (Inl cause, h1) \<longrightarrow>
            createLiquidity E baseAssetValue assetValue h = (Inl cause, h1)
            \<and> (depositCalls h1 = depositCalls h
               \<or> (\<exists>inbound. depositCalls h1 =
                    depositCalls h @ [poolDepositParams inbound baseAssetValue baseMemo Fast])))
       \<and> (\<forall>tx h1 cause h2.
            depositToPool E baseAssetValue baseMemo None h = (Inr tx, h1)
            \<and> depositToPool E assetValue assetMemo None h1 = (Inl cause, h2) \<longrightarrow>
            createLiquidity E baseAssetValue assetValue h = (Inl cause, h2)
            \<and> (\<exists>inbound. depositCalls h1 =
                  depositCalls h @ [poolDepositParams inbound baseAssetValue baseMemo Fast])
            \<and> (\<exists>evs. h2 = h1 @ evs))"
proof -
  have pos: "\<not> (lte0 baseAssetValue \<or> lte0 assetValue)"
    using assms(1,2) by (simp add: gt0_def lte0_def)
  have base: "createLiquidity E baseAssetValue assetValue h = (Inl cause, h1)"
    if "depositToPool E baseAssetValue baseMemo None h = (Inl cause, h1)" for cause h1
    using that pos unfolding createLiquidity_def assms(3)
    by (simp add: Let_def await_def wrapWithThrow_def awaited_def)
  have baseCalls: "depositCalls h1 = depositCalls h
               \<or> (\<exists>inbound. depositCalls h1 =
                    depositCalls h @ [poolDepositParams inbound baseAssetValue baseMemo Fast])"
    if "depositToPool E baseAssetValue baseMemo None h = (r, h1)" for r h1
    using depositToPool_calls[of E baseAssetValue baseMemo None h] that by simp
  have asset: "createLiquidity E baseAssetValue assetValue h = (Inl cause, h2)"
    if "depositToPool E baseAssetValue baseMemo None h = (Inr tx, h1)"
      and "depositToPool E assetValue assetMemo None h1 = (Inl cause, h2)" for tx h1 cause h2
    using that pos unfolding createLiquidity_def assms(3,4)
    by (simp add: Let_def await_def wrapWithThrow_def awaited_def)
  have dispatched: "\<exists>inbound. depositCalls h1 =
                  depositCalls h @ [poolDepositParams inbound baseAssetValue baseMemo Fast]"
    if "depositToPool E baseAssetValue baseMemo None h = (Inr tx, h1)" for tx h1
    using depositToPool_success_calls[OF that] by simp
  have grows: "\<exists>evs. h2 = h1 @ evs"
    if "depositToPool E assetValue assetMemo None h1 = (r, h2)" for r h1 h2
    using depositToPool_extends[of E assetValue assetMemo None h1] that by simp
  show ?thesis
    using base baseCalls asset dispatched grows by blast
qed

text \<open>
  A deposit primitive that rejects everything fails the base leg; one that accepts only
  the first deposit fails the asset leg after the base leg's deposit. Both runs end with
  the rejection of the primitive, untagged.
\<close>

theorem createLiquidity_leg_failures_witness:
  "createLiquidity (exampleEnv failingDeposit [inboundEntry (OtherChain ''ETH'') ''10'' False])
     (gasAsset THORChain 100) (gasAsset (OtherChain ''ETH'') 7) [] =
     (Inl (Rejected ''broadcast failed''),
      [DepositCall \<lparr>dp_assetValue = gasAsset THORChain 100, dp_recipient = [],
                    dp_memo = ''+:ETH.ETH:0xwallet'', dp_router = Some [],
                    dp_feeRate = Some (Num 0)\<rparr>])
   \<and> createLiquidity (exampleEnv firstOnlyDeposit [inboundEntry (OtherChain ''ETH'') ''10'' False])
       (gasAsset THORChain 100) (gasAsset (OtherChain ''ETH'') 7) [] =
       (Inl (Rejected ''broadcast failed''),
        [DepositCall \<lparr>dp_assetValue = gasAsset THORChain 100, dp_recipient = [],
                      dp_memo = ''+:ETH.ETH:0xwallet'', dp_router = Some [],
                      dp_feeRate = Some (Num 0)\<rparr>,
         GetInboundAddresses \<lparr>ep_stagenet = False, ep_type = thorchain\<rparr>,
         DepositCall \<lparr>dp_assetValue = gasAsset (OtherChain ''ETH'') 7, dp_recipient = ''0xvault'',
                      dp_memo = ''+:ETH.ETH:thor1base'', dp_router = Some ''0xrouter'',
                      dp_feeRate = Some (Num 15)\<rparr>])"
proof -
  let ?table = "[inboundEntry (OtherChain ''ETH'') ''10'' False]"
  let ?F = "exampleEnv failingDeposit ?table"
  let ?G = "exampleEnv firstOnlyDeposit ?table"
  let ?base = "gasAsset THORChain 100"
  let ?asset = "gasAsset (OtherChain ''ETH'') 7"
  let ?Pb = "\<lparr>dp_assetValue = ?base, dp_recipient = [], dp_memo = ''+:ETH.ETH:0xwallet'',
               dp_router = Some [], dp_feeRate = Some (Num 0)\<rparr>"
  let ?Pa = "\<lparr>dp_assetValue = ?asset, dp_recipient = ''0xvault'', dp_memo = ''+:ETH.ETH:thor1base'',
               dp_router = Some ''0xrouter'', dp_feeRate = Some (Num 15)\<rparr>"
  let ?ev = "GetInboundAddresses \<lparr>ep_stagenet = False, ep_type = thorchain\<rparr>"
  have pos: "gt0 ?base" "gt0 ?asset"
    by (simp_all add: gt0_def gasAsset_def)
  have bm: "''+:ETH.ETH:0xwallet'' =
              getMemoForDeposit E (av_chain ?asset) (av_symbol ?asset)
                (getAddress E (wallets E) (av_chain ?asset))"
    and am: "''+:ETH.ETH:thor1base'' =
              getMemoForDeposit E (av_chain ?asset) (av_symbol ?asset)
                (getAddress E (wallets E) (chainOf (pluginChain E)))"
    if "E = exampleEnv dep ?table" for E dep
    by (simp_all add: that exampleEnv_def exampleWallets_def gasAsset_def)
  have self: "getInboundDataByChain (exampleEnv dep ?table) (av_chain ?base) h =
                (Inr \<lparr>ib_chain = THORChain, gas_rate = Some ''0'', ib_router = Some [],
                      ib_address = [], halted = False\<rparr>, h)" for dep h
    using example_lookup_self[of dep ?table h] by (simp add: gasAsset_def)
  have eth: "getInboundDataByChain (exampleEnv dep ?table) (av_chain ?asset) h =
                (Inr (inboundEntry (OtherChain ''ETH'') ''10'' False), h @ [?ev])" for dep h
    using example_lookup[of "OtherChain ''ETH''" ?table _ dep h]
    by (simp add: gasAsset_def inboundEntry_def)
  have baseF: "depositToPool ?F ?base ''+:ETH.ETH:0xwallet'' None [] =
                 (Inl (Rejected ''broadcast failed''), [DepositCall ?Pb])"
    using depositToPool_resolved[OF self[of failingDeposit "[]"],
            where memo = "''+:ETH.ETH:0xwallet''" and feeOptionKey = None]
    by (simp add: poolDepositParams_def parseInt_0 times_0_Fast exampleEnv_def failingDeposit_def
          del: gasFeeMultiplier.simps)
  have baseG: "depositToPool ?G ?base ''+:ETH.ETH:0xwallet'' None [] =
                 (Inr ''txid'', [DepositCall ?Pb])"
    using depositToPool_resolved[OF self[of firstOnlyDeposit "[]"],
            where memo = "''+:ETH.ETH:0xwallet''" and feeOptionKey = None]
    by (simp add: poolDepositParams_def parseInt_0 times_0_Fast exampleEnv_def
          firstOnlyDeposit_def del: gasFeeMultiplier.simps)
  have assetG: "depositToPool ?G ?asset ''+:ETH.ETH:thor1base'' None [DepositCall ?Pb] =
                 (Inl (Rejected ''broadcast failed''), [DepositCall ?Pb, ?ev, DepositCall ?Pa])"
    using depositToPool_resolved[OF eth[of firstOnlyDeposit "[DepositCall ?Pb]"],
            where memo = "''+:ETH.ETH:thor1base''" and feeOptionKey = None]
    by (simp add: poolDepositParams_def parseInt_10 times_10_Fast exampleEnv_def
          firstOnlyDeposit_def inboundEntry_def del: gasFeeMultiplier.simps)
  from createLiquidity_leg_failures[OF pos bm[OF refl] am[OF refl], of failingDeposit "[]",
         THEN conjunct1, rule_format, OF baseF]
  have 1: "createLiquidity ?F ?base ?asset [] =
             (Inl (Rejected ''broadcast failed''), [DepositCall ?Pb])"
    by (rule conjunct1)
  from createLiquidity_leg_failures[OF pos bm[OF refl] am[OF refl], of firstOnlyDeposit "[]",
         THEN conjunct2, rule_format, OF conjI[OF baseG assetG]]
  have 2: "createLiquidity ?G ?base ?asset [] =
             (Inl (Rejected ''broadcast failed''), [DepositCall ?Pb, ?ev, DepositCall ?Pa])"
    by (rule conjunct1)
  from 1 2 show ?thesis by (rule conjI)
qed

text \<open>
  C6. \<open>nodeAction\<close>, when the protocol is not halted: for \<open>UNBOND\<close> the memo is the unbond
  memo of the address and the base-unit amount of the given asset value, and the value
  deposited is the minimum amount of the protocol chain; for \<open>LEAVE\<close> the value deposited
  is that minimum amount as well; only for \<open>BOND\<close> it is the given asset value.
\<close>

theorem nodeAction_transfer:
  assumes "getMimirInfo E (endpointParams E) h = Inr mimir"
    and "HALTCHAINGLOBAL mimir < 1" and "HALTTHORCHAIN mimir < 1"
    and "h' = h @ [GetMimirInfo (endpointParams E)]"
    and "minAmount = getMinAmountByChain E (chainOf (pluginChain E))"
  shows "(\<exists>P. nodeAction E UNBOND assetValue address h = (deposit E h' P, h' @ [DepositCall P])
            \<and> dp_memo P = getMemoForUnbond E address (av_baseValue assetValue)
            \<and> dp_assetValue P = minAmount)
       \<and> (\<exists>P. nodeAction E LEAVE assetValue address h = (deposit E h' P, h' @ [DepositCall P])
            \<and> dp_memo P = getMemoForLeaveAndBond E LEAVE address
            \<and> dp_assetValue P = minAmount)
       \<and> (\<exists>P. nodeAction E BOND assetValue address h = (deposit E h' P, h' @ [DepositCall P])
            \<and> dp_memo P = getMemoForLeaveAndBond E BOND address
            \<and> dp_assetValue P = assetValue)"
  using assms
  by (simp add: nodeAction_def depositToProtocol_def await_def call_def Let_def getBaseValue_def)

text \<open>Unbonding and bonding 250 base units on THORChain.\<close>

theorem nodeAction_transfer_witness:
  "nodeAction (exampleEnv okDeposit []) UNBOND (gasAsset THORChain 250) ''thor1node'' [] =
     (Inr ''txid'',
      [GetMimirInfo \<lparr>ep_stagenet = False, ep_type = thorchain\<rparr>,
       DepositCall \<lparr>dp_assetValue = gasAsset THORChain 1, dp_recipient = [],
                    dp_memo = ''UNBOND:thor1node:250'', dp_router = None, dp_feeRate = None\<rparr>])
   \<and> nodeAction (exampleEnv okDeposit []) BOND (gasAsset THORChain 250) ''thor1node'' [] =
     (Inr ''txid'',
      [GetMimirInfo \<lparr>ep_stagenet = False, ep_type = thorchain\<rparr>,
       DepositCall \<lparr>dp_assetValue = gasAsset THORChain 250, dp_recipient = [],
                    dp_memo = ''BOND:thor1node'', dp_router = None, dp_feeRate = None\<rparr>])"
proof -
  let ?E = "exampleEnv okDeposit []"
  let ?av = "gasAsset THORChain 250"
  let ?h = "[GetMimirInfo \<lparr>ep_stagenet = False, ep_type = thorchain\<rparr>]"
  have mimir: "getMimirInfo ?E (endpointParams ?E) [] =
                 Inr \<lparr>HALTCHAINGLOBAL = 0, HALTTHORCHAIN = 0\<rparr>"
    by (simp add: exampleEnv_def)
  have ok: "HALTCHAINGLOBAL \<lparr>HALTCHAINGLOBAL = 0, HALTTHORCHAIN = 0\<rparr> < 1"
           "HALTTHORCHAIN \<lparr>HALTCHAINGLOBAL = 0, HALTTHORCHAIN = 0\<rparr> < 1"
    by simp_all
  have h: "?h = [] @ [GetMimirInfo (endpointParams ?E)]"
    by (simp add: exampleEnv_def endpointParams_def thornodeType_def)
  have dep: "deposit ?E k P = Inr ''txid''" for k P
    by (simp add: exampleEnv_def okDeposit_def)
  note na = nodeAction_transfer[OF mimir ok h refl, of ?av "''thor1node''"]
  from na obtain P where
    run: "nodeAction ?E UNBOND ?av ''thor1node'' [] = (deposit ?E ?h P, ?h @ [DepositCall P])"
    and memo: "dp_memo P = getMemoForUnbond ?E ''thor1node'' (av_baseValue ?av)"
    and v: "dp_assetValue P = getMinAmountByChain ?E (chainOf (pluginChain ?E))"
    by blast
  from na obtain Q where
    runQ: "nodeAction ?E BOND ?av ''thor1node'' [] = (deposit ?E ?h Q, ?h @ [DepositCall Q])"
    and memoQ: "dp_memo Q = getMemoForLeaveAndBond ?E BOND ''thor1node''"
    and vQ: "dp_assetValue Q = ?av"
    by blast
  have shape: "\<exists>m a. snd (nodeAction ?E t ?av ''thor1node'' []) =
             ?h @ [DepositCall \<lparr>dp_assetValue = a, dp_recipient = [], dp_memo = m,
                                 dp_router = None, dp_feeRate = None\<rparr>]" for t
    by (simp add: nodeAction_def depositToProtocol_def io_defs Let_def exampleEnv_def
          endpointParams_def thornodeType_def)
  from shape[of UNBOND] run memo v
  have P: "P = \<lparr>dp_assetValue = gasAsset THORChain 1, dp_recipient = [],
                 dp_memo = ''UNBOND:thor1node:250'', dp_router = None, dp_feeRate = None\<rparr>"
    by (auto simp: exampleEnv_def gasAsset_def show_defs)
  from shape[of BOND] runQ memoQ vQ
  have Q: "Q = \<lparr>dp_assetValue = gasAsset THORChain 250, dp_recipient = [],
                 dp_memo = ''BOND:thor1node'', dp_router = None, dp_feeRate = None\<rparr>"
    by (auto simp: exampleEnv_def gasAsset_def)
  show ?thesis
    unfolding run runQ dep unfolding P Q by simp
qed

text \<open>
  C7. For the plugin's own protocol chain, \<open>getInboundDataByChain\<close> makes no call at all
  (the history is unchanged) and returns the synthetic record with gas rate \<open>0\<close>, empty
  router and address, and \<open>halted = False\<close>; it never fails there.
\<close>

theorem getInboundDataByChain_self:
  "getInboundDataByChain E (chainOf (pluginChain E)) h =
     (Inr \<lparr>ib_chain = chainOf (pluginChain E), gas_rate = Some ''0'', ib_router = Some '''',
           ib_address = '''', halted = False\<rparr>, h)"
  by (cases "pluginChain E")
     (simp_all add: getInboundDataByChain_def thornodeType_def resolve_def selfInboundData_def)

text \<open>The lookup for THORChain on a THORChain plugin, after an earlier call.\<close>

theorem getInboundDataByChain_self_witness:
  "getInboundDataByChain (exampleEnv okDeposit []) THORChain
     [GetMimirInfo \<lparr>ep_stagenet = False, ep_type = thorchain\<rparr>] =
   (Inr \<lparr>ib_chain = THORChain, gas_rate = Some ''0'', ib_router = Some '''', ib_address = '''',
         halted = False\<rparr>,
    [GetMimirInfo \<lparr>ep_stagenet = False, ep_type = thorchain\<rparr>])"
  using getInboundDataByChain_self[of "exampleEnv okDeposit []"
          "[GetMimirInfo \<lparr>ep_stagenet = False, ep_type = thorchain\<rparr>]"]
  by (simp add: example_defs)

text \<open>
  C8. \<open>addLiquidity\<close> fails with \<open>core_transaction_add_liquidity_invalid_params\<close>, and
  makes no call, when both values are at most zero, whatever the mode (given or
  defaulted to \<open>sym\<close>); and more generally whenever neither the base transfer (base value
  positive and mode \<open>sym\<close> or \<open>baseAsset\<close>) nor the asset transfer (asset value positive
  and mode \<open>sym\<close> or \<open>asset\<close>) is active.
\<close>

theorem addLiquidity_invalid_params:
  assumes "mode = (case modeArg of None \<Rightarrow> Mode_sym | Some m \<Rightarrow> m)"
  shows "(lte0 baseAssetValue \<and> lte0 assetValue \<longrightarrow>
            addLiquidity E baseAssetValue assetValue baseAssetAddr assetAddr isPendingSymmAsset
              modeArg h =
            (Inl (SwapKitError core_transaction_add_liquidity_invalid_params None), h))
       \<and> (\<not> (gt0 baseAssetValue \<and> (mode = Mode_sym \<or> mode = Mode_baseAsset))
          \<and> \<not> (gt0 assetValue \<and> (mode = Mode_sym \<or> mode = Mode_asset)) \<longrightarrow>
            addLiquidity E baseAssetValue assetValue baseAssetAddr assetAddr isPendingSymmAsset
              modeArg h =
            (Inl (SwapKitError core_transaction_add_liquidity_invalid_params None), h))"
  unfolding addLiquidity_def Let_def assms[symmetric] baseTransfer_def assetTransfer_def
  by (auto simp: throw_def gt0_def lte0_def)

text \<open>Two values that are not positive; and a positive base value in mode \<open>asset\<close>.\<close>

theorem addLiquidity_invalid_params_witness:
  "addLiquidity (exampleEnv okDeposit []) (gasAsset THORChain 0) (gasAsset (OtherChain ''ETH'') (- 1))
     None None False None [] =
     (Inl (SwapKitError core_transaction_add_liquidity_invalid_params None), [])
   \<and> addLiquidity (exampleEnv okDeposit []) (gasAsset THORChain 100) (gasAsset (OtherChain ''ETH'') 0)
       None None False (Some Mode_asset) [] =
       (Inl (SwapKitError core_transaction_add_liquidity_invalid_params None), [])"
proof -
  let ?E = "exampleEnv okDeposit []"
  have le: "lte0 (gasAsset THORChain 0) \<and> lte0 (gasAsset (OtherChain ''ETH'') (- 1))"
    by (simp add: lte0_def gasAsset_def)
  have off: "\<not> (gt0 (gasAsset THORChain 100) \<and> (Mode_asset = Mode_sym \<or> Mode_asset = Mode_baseAsset))
             \<and> \<not> (gt0 (gasAsset (OtherChain ''ETH'') 0)
                   \<and> (Mode_asset = Mode_sym \<or> Mode_asset = Mode_asset))"
    by (simp add: gt0_def gasAsset_def)
  have m1: "Mode_sym = (case None of None \<Rightarrow> Mode_sym | Some m \<Rightarrow> m)"
    and m2: "Mode_asset = (case Some Mode_asset of None \<Rightarrow> Mode_sym | Some m \<Rightarrow> m)"
    by simp_all
  from addLiquidity_invalid_params[OF m1, THEN conjunct1, rule_format, OF le]
       addLiquidity_invalid_params[OF m2, THEN conjunct2, rule_format, OF off]
  show ?thesis by simp
qed

text \<open>
  C9. \<open>withdraw\<close> deposits the minimum amount of the asset value's chain when \<open>from\<close> is
  \<open>asset\<close>, and of the protocol chain otherwise. In the memo it generates (when the
  caller gives none), the target asset is the native asset of the protocol chain for
  \<open>from = asset\<close>, \<open>to = baseAsset\<close>; no target asset is encoded when \<open>from\<close> and \<open>to\<close>
  are both \<open>sym\<close>, or \<open>from\<close> is \<open>baseAsset\<close> or \<open>asset\<close> and \<open>to\<close> is not \<open>baseAsset\<close>.
  The statement is for the case that the inbound route of the deposited value's chain
  resolves, so that a deposit is made.
\<close>

theorem withdraw_target_and_value:
  assumes "v = getMinAmountByChain E
                 (if from = Mode_asset then av_chain assetValue else chainOf (pluginChain E))"
    and "getInboundDataByChain E (av_chain v) h = (Inr inbound, h')"
  shows "\<exists>P. withdraw E memo assetValue percent from to h = (deposit E h' P, h' @ [DepositCall P])
           \<and> dp_assetValue P = v
           \<and> (\<not> truthy memo \<and> from = Mode_asset \<and> to = Mode_baseAsset \<longrightarrow>
                dp_memo P =
                  getMemoForWithdraw E (av_symbol assetValue) (av_chain assetValue)
                    (av_ticker assetValue) (basisPoints percent)
                    (Some (AssetValue_toString E
                             (AssetValue_from_chain E (chainOf (pluginChain E))))))
           \<and> (\<not> truthy memo
              \<and> ((from = Mode_sym \<and> to = Mode_sym)
                 \<or> ((from = Mode_baseAsset \<or> from = Mode_asset) \<and> to \<noteq> Mode_baseAsset)) \<longrightarrow>
                dp_memo P =
                  getMemoForWithdraw E (av_symbol assetValue) (av_chain assetValue)
                    (av_ticker assetValue) (basisPoints percent) None)"
proof -
  let ?m = "strOr memo
              (getMemoForWithdraw E (av_symbol assetValue) (av_chain assetValue)
                 (av_ticker assetValue) (basisPoints percent)
                 (map_option (AssetValue_toString E) (withdrawTargetAsset E assetValue from to)))"
  let ?P = "poolDepositParams inbound v ?m Fast"
  have "withdraw E memo assetValue percent from to h = (deposit E h' ?P, h' @ [DepositCall ?P])"
    using depositToPool_resolved[OF assms(2), of ?m None]
    by (simp add: withdraw_def Let_def assms(1))
  moreover have "\<not> truthy memo \<Longrightarrow> strOr memo g = g" for g
    by (auto simp: truthy_def strOr_def split: option.splits)
  ultimately show ?thesis
    by (intro exI[of _ ?P]) (auto simp: poolDepositParams_def withdrawTargetAsset_def)
qed

text \<open>Withdrawing half of an ETH position to the base asset.\<close>

theorem withdraw_target_and_value_witness:
  "withdraw (exampleEnv okDeposit [inboundEntry (OtherChain ''ETH'') ''10'' False]) None
     (gasAsset (OtherChain ''ETH'') 0) (Num 50) Mode_asset Mode_baseAsset [] =
     (Inr ''txid'',
      [GetInboundAddresses \<lparr>ep_stagenet = False, ep_type = thorchain\<rparr>,
       DepositCall \<lparr>dp_assetValue = gasAsset (OtherChain ''ETH'') 1, dp_recipient = ''0xvault'',
                    dp_memo = ''-:ETH.ETH:5000:THOR.THOR'', dp_router = Some ''0xrouter'',
                    dp_feeRate = Some (Num 15)\<rparr>])"
proof -
  let ?E = "exampleEnv okDeposit [inboundEntry (OtherChain ''ETH'') ''10'' False]"
  let ?av = "gasAsset (OtherChain ''ETH'') 0"
  let ?h = "[GetInboundAddresses \<lparr>ep_stagenet = False, ep_type = thorchain\<rparr>]"
  let ?P = "\<lambda>m. \<lparr>dp_assetValue = gasAsset (OtherChain ''ETH'') 1, dp_recipient = ''0xvault'',
                 dp_memo = m, dp_router = Some ''0xrouter'', dp_feeRate = Some (Num 15)\<rparr>"
  have v: "gasAsset (OtherChain ''ETH'') 1 =
             getMinAmountByChain ?E
               (if Mode_asset = Mode_asset then av_chain ?av else chainOf (pluginChain ?E))"
    by (simp add: exampleEnv_def gasAsset_def)
  have lookup: "getInboundDataByChain ?E (av_chain (gasAsset (OtherChain ''ETH'') 1)) [] =
          (Inr (inboundEntry (OtherChain ''ETH'') ''10'' False), ?h)"
    using example_lookup[of "OtherChain ''ETH''" _ _ okDeposit "[]"]
    by (simp add: gasAsset_def inboundEntry_def)
  have bp: "basisPoints (Num 50) = Num 5000"
    by (simp add: basisPoints_def num_times_def roundDouble_values Math_min_def floor_eq_iff)
  from withdraw_target_and_value[OF v lookup, where memo = None and percent = "Num 50"
         and to = Mode_baseAsset] obtain P where
    run: "withdraw ?E None ?av (Num 50) Mode_asset Mode_baseAsset [] =
            (deposit ?E ?h P, ?h @ [DepositCall P])"
    and memo: "\<not> truthy None \<and> Mode_asset = Mode_asset \<and> Mode_baseAsset = Mode_baseAsset \<longrightarrow>
                dp_memo P =
                  getMemoForWithdraw ?E (av_symbol ?av) (av_chain ?av) (av_ticker ?av)
                    (basisPoints (Num 50))
                    (Some (AssetValue_toString ?E
                             (AssetValue_from_chain ?E (chainOf (pluginChain ?E)))))"
    by blast
  have m: "dp_memo P = ''-:ETH.ETH:5000:THOR.THOR''"
    using memo by (simp add: truthy_def bp exampleEnv_def gasAsset_def show_defs)
  have "\<exists>m. withdraw ?E None ?av (Num 50) Mode_asset Mode_baseAsset [] =
          (Inr ''txid'', ?h @ [DepositCall (?P m)])"
    unfolding withdraw_def Let_def
    using depositToPool_resolved[OF lookup, where feeOptionKey = None]
    by (simp add: exampleEnv_def okDeposit_def gasAsset_def poolDepositParams_def inboundEntry_def
          parseInt_10 times_10_Fast del: gasFeeMultiplier.simps)
  with run have "P = ?P (dp_memo P)"
    by auto
  with run m show ?thesis
    by (simp add: exampleEnv_def okDeposit_def)
qed

text \<open>
  C10. \<open>approve\<close> looks the inbound route up before anything else: for an asset of a
  chain other than the protocol chain, an absent entry fails both modes with
  \<open>core_inbound_data_not_found\<close> and a halted entry with \<open>core_chain_halted\<close>, whatever
  the asset is (gas asset, synthetic, on a chain outside \<open>EVMChains\<close>).
\<close>

theorem approve_route_lookup_first:
  assumes "av_chain assetValue \<noteq> chainOf (pluginChain E)"
    and "getInboundAddresses E (endpointParams E) h = Inr table"
  shows "(find (\<lambda>item. ib_chain item = av_chain assetValue) table = None \<longrightarrow>
            approve E assetValue mode h =
              (Inl (SwapKitError core_inbound_data_not_found None),
               h @ [GetInboundAddresses (endpointParams E)]))
       \<and> (\<forall>d. find (\<lambda>item. ib_chain item = av_chain assetValue) table = Some d \<and> halted d \<longrightarrow>
            approve E assetValue mode h =
              (Inl (SwapKitError core_chain_halted None),
               h @ [GetInboundAddresses (endpointParams E)]))"
  using assms
  by (simp add: approve_def await_def getInboundDataByChain_other)

text \<open>A synthetic asset of a chain without an entry, and the gas asset of a halted chain.\<close>

theorem approve_route_lookup_first_witness:
  "approve (exampleEnv okDeposit [inboundEntry (OtherChain ''ETH'') ''10'' True])
     \<lparr>av_chain = OtherChain ''BTC'', av_symbol = ''BTC'', av_ticker = ''BTC'', av_address = None,
      isGasAsset = False, isSynthetic = True, av_baseValue = 5\<rparr> Approve [] =
     (Inl (SwapKitError core_inbound_data_not_found None),
      [GetInboundAddresses \<lparr>ep_stagenet = False, ep_type = thorchain\<rparr>])
   \<and> approve (exampleEnv okDeposit [inboundEntry (OtherChain ''ETH'') ''10'' True])
       (gasAsset (OtherChain ''ETH'') 5) CheckOnly [] =
       (Inl (SwapKitError core_chain_halted None),
        [GetInboundAddresses \<lparr>ep_stagenet = False, ep_type = thorchain\<rparr>])"
proof -
  let ?E = "exampleEnv okDeposit [inboundEntry (OtherChain ''ETH'') ''10'' True]"
  let ?btc = "\<lparr>av_chain = OtherChain ''BTC'', av_symbol = ''BTC'', av_ticker = ''BTC'',
               av_address = None, isGasAsset = False, isSynthetic = True, av_baseValue = 5\<rparr>"
  have tb: "getInboundAddresses ?E (endpointParams ?E) [] =
              Inr [inboundEntry (OtherChain ''ETH'') ''10'' True]"
    by (simp add: example_defs)
  have ep: "endpointParams ?E = \<lparr>ep_stagenet = False, ep_type = thorchain\<rparr>"
    by (simp add: example_defs endpointParams_def thornodeType_def)
  have btc: "av_chain ?btc \<noteq> chainOf (pluginChain ?E)"
    and eth: "av_chain (gasAsset (OtherChain ''ETH'') 5) \<noteq> chainOf (pluginChain ?E)"
    by (simp_all add: example_defs)
  from approve_route_lookup_first[OF btc tb, of Approve, unfolded ep]
       approve_route_lookup_first[OF eth tb, of CheckOnly, unfolded ep]
  show ?thesis
    by (simp add: inboundEntry_def gasAsset_def)
qed

end
